theory Spec2Isabelle
  imports Main "HOL-Library.Sublist"
begin

section \<open>JavaScript strings\<close>

text \<open>
  Strings are lists of characters. The string methods the agent uses are modelled on
  that representation: \<open>includes\<close>, \<open>toLowerCase\<close> (on the ASCII letters),
  \<open>replace\<close> with a global literal pattern, \<open>trim\<close> (of the ASCII white space),
  \<open>join\<close> and the decimal rendering of a number inside a template literal. Writing to
  the console has no effect on any result and is left out throughout.
\<close>

definition startsWith :: "string \<Rightarrow> string \<Rightarrow> bool" where
  "startsWith s p = (take (length p) s = p)"

fun js_includes :: "string \<Rightarrow> string \<Rightarrow> bool" where
  "js_includes [] sub = (sub = [])"
| "js_includes (c # cs) sub = (startsWith (c # cs) sub \<or> js_includes cs sub)"

definition lowerChar :: "char \<Rightarrow> char" where
  "lowerChar c =
     (case map_of (zip ''ABCDEFGHIJKLMNOPQRSTUVWXYZ'' ''abcdefghijklmnopqrstuvwxyz'') c of
        Some d \<Rightarrow> d
      | None \<Rightarrow> c)"

definition toLowerCase :: "string \<Rightarrow> string" where
  "toLowerCase s = map lowerChar s"

text \<open>\<open>s.replace(/pat/g, '')\<close> for a literal pattern: every occurrence, scanning from the
  left, is removed.\<close>

function removeAllMatches :: "string \<Rightarrow> string \<Rightarrow> string" where
  "removeAllMatches pat [] = []"
| "removeAllMatches pat (c # cs) =
     (if pat \<noteq> [] \<and> startsWith (c # cs) pat
      then removeAllMatches pat (drop (length pat) (c # cs))
      else c # removeAllMatches pat cs)"
  by pat_completeness auto
termination
  by (relation "measure (\<lambda>(pat, s). length s)") auto

definition isSpace :: "char \<Rightarrow> bool" where
  "isSpace c = (c \<in> set [CHR '' '', CHR 0x09, CHR 0x0A, CHR 0x0B, CHR 0x0C, CHR 0x0D])"

definition trim :: "string \<Rightarrow> string" where
  "trim s = rev (dropWhile isSpace (rev (dropWhile isSpace s)))"

fun join :: "string \<Rightarrow> string list \<Rightarrow> string" where
  "join sep [] = []"
| "join sep [x] = x"
| "join sep (x # y # ys) = x @ sep @ join sep (y # ys)"

definition digit :: "nat \<Rightarrow> char" where
  "digit d = ''0123456789'' ! d"

fun numberToString :: "nat \<Rightarrow> string" where
  "numberToString n =
     (if n < 10 then [digit n] else numberToString (n div 10) @ [digit (n mod 10)])"

declare numberToString.simps [simp del]

section \<open>Messages\<close>

text \<open>
  A chat message carries the tag that \<open>getType()\<close> returns and its text content. The
  three message classes the agent constructs are \<open>SystemMessage\<close>, \<open>HumanMessage\<close> and
  \<open>AIMessage\<close>; a list handed to the service may hold messages of other tags as well.
\<close>

datatype BaseMessage = BaseMessage (getType: string) (content: string)

definition SystemMessage :: "string \<Rightarrow> BaseMessage" where
  "SystemMessage c = BaseMessage ''system'' c"

definition HumanMessage :: "string \<Rightarrow> BaseMessage" where
  "HumanMessage c = BaseMessage ''human'' c"

definition AIMessage :: "string \<Rightarrow> BaseMessage" where
  "AIMessage c = BaseMessage ''ai'' c"

text \<open>The exceptions that occur: \<open>Error\<close> and its subclasses \<open>TypeError\<close> and
  \<open>SyntaxError\<close>, each with its \<open>message\<close>.\<close>

datatype JSError = Error string | TypeError string | SyntaxError string

fun message :: "JSError \<Rightarrow> string" where
  "message (Error m) = m"
| "message (TypeError m) = m"
| "message (SyntaxError m) = m"

section \<open>The world outside the agent\<close>

text \<open>
  The files under the project root (keyed by their path relative to it), the backup
  copies taken so far (original file name and content, oldest first), a clock in
  milliseconds and the number of requests sent to a chat backend so far.
\<close>

record World =
  files :: "string \<rightharpoonup> string"
  backups :: "(string \<times> string) list"
  clock :: nat
  calls :: nat

section \<open>LLMService\<close>

datatype LLMProvider = openai | anthropic | google | ollama

fun providerName :: "LLMProvider \<Rightarrow> string" where
  "providerName openai = ''openai''"
| "providerName anthropic = ''anthropic''"
| "providerName google = ''google''"
| "providerName ollama = ''ollama''"

text \<open>The chat backend objects, with the options \<open>configure\<close> passes to each.\<close>

datatype BaseChatModel =
    ChatOpenAI "string option" string
  | ChatAnthropic "string option" string
  | ChatGoogleGenerativeAI "string option" string nat
  | ChatOllama string string

record LLMService =
  model :: "BaseChatModel option"
  currentProvider :: "LLMProvider option"

definition LLMService_new :: LLMService where
  "LLMService_new = \<lparr>model = None, currentProvider = None\<rparr>"

fun newModel :: "LLMProvider \<Rightarrow> string \<Rightarrow> string option \<Rightarrow> BaseChatModel" where
  "newModel openai modelId apiKey = ChatOpenAI apiKey modelId"
| "newModel anthropic modelId apiKey = ChatAnthropic apiKey modelId"
| "newModel google modelId apiKey = ChatGoogleGenerativeAI apiKey modelId 1"
| "newModel ollama modelId apiKey = ChatOllama ''http://localhost:11434'' modelId"

definition configure :: "LLMProvider \<Rightarrow> string \<Rightarrow> string option \<Rightarrow> LLMService \<Rightarrow> LLMService" where
  "configure provider modelId apiKey svc =
     svc\<lparr>currentProvider := Some provider, model := Some (newModel provider modelId apiKey)\<rparr>"

text \<open>
  What \<open>model.stream(messages)\<close> and the iteration over the stream do is the backend's
  business: the chunks arrive and the stream ends after some milliseconds, or an
  exception is raised after some milliseconds, or nothing ever settles. The backend
  is a parameter: its answer may depend on the request number, on the backend object
  and on the messages sent.
\<close>

datatype StreamOutcome =
    Completes nat "string list"
  | Throws nat JSError
  | Pending

type_synonym Backend = "nat \<Rightarrow> BaseChatModel \<Rightarrow> BaseMessage list \<Rightarrow> StreamOutcome"

subsection \<open>preprocessForGoogle\<close>

text \<open>The first loop: system messages to one array, all the others to a second one.\<close>

fun separate :: "BaseMessage list \<Rightarrow> BaseMessage list \<Rightarrow> BaseMessage list
    \<Rightarrow> BaseMessage list \<times> BaseMessage list" where
  "separate [] systemMessages conversationMessages = (systemMessages, conversationMessages)"
| "separate (msg # rest) systemMessages conversationMessages =
     (if getType msg = ''system''
      then separate rest (systemMessages @ [msg]) conversationMessages
      else separate rest systemMessages (conversationMessages @ [msg]))"

text \<open>The second loop: human messages are kept, \<open>ai\<close> and \<open>system\<close> ones are rebuilt as
  \<open>AIMessage\<close>, any other message is kept.\<close>

fun addConversation :: "BaseMessage list \<Rightarrow> BaseMessage list \<Rightarrow> BaseMessage list" where
  "addConversation [] result = result"
| "addConversation (msg # rest) result =
     (if getType msg = ''human'' then addConversation rest (result @ [msg])
      else if getType msg = ''ai'' \<or> getType msg = ''system''
      then addConversation rest (result @ [AIMessage (content msg)])
      else addConversation rest (result @ [msg]))"

definition preprocessForGoogle :: "BaseMessage list \<Rightarrow> BaseMessage list" where
  "preprocessForGoogle messages =
     (let (systemMessages, conversationMessages) = separate messages [] [];
          combinedSystemContent = join ''\<newline>\<newline>'' (map content systemMessages);
          result = (if combinedSystemContent \<noteq> [] then [SystemMessage combinedSystemContent] else [])
      in addConversation conversationMessages result)"

subsection \<open>chat\<close>

definition mockReply :: "string \<Rightarrow> string" where
  \<open>mockReply lastMsg =
     ''[MOCK AI - No Provider Set] I heard: "'' @ lastMsg @
     ''". \<newline>\<newline>Please configure a provider (OpenAI, Anthropic, Google, or Ollama) to continue.''\<close>

definition timeoutError :: JSError where
  "timeoutError = Error ''Request timed out after 60 seconds''"

text \<open>The stream's chunks are appended to \<open>fullContent\<close> one by one.\<close>

definition accumulate :: "string list \<Rightarrow> string" where
  "accumulate chunks = foldl (\<lambda>fullContent chunkText. fullContent @ chunkText) [] chunks"

text \<open>\<open>Promise.race\<close> of the stream against the 60000 ms timer: the stream wins when it
  settles before the timer fires.\<close>

fun race :: "StreamOutcome \<Rightarrow> JSError + string" where
  "race (Completes t chunks) = (if t < 60000 then Inr (accumulate chunks) else Inl timeoutError)"
| "race (Throws t e) = (if t < 60000 then Inl e else Inl timeoutError)"
| "race Pending = Inl timeoutError"

fun elapsed :: "StreamOutcome \<Rightarrow> nat" where
  "elapsed (Completes t chunks) = min t 60000"
| "elapsed (Throws t e) = min t 60000"
| "elapsed Pending = 60000"

fun providerText :: "LLMProvider option \<Rightarrow> string" where
  "providerText None = ''null''"
| "providerText (Some p) = providerName p"

definition processedMessages :: "LLMService \<Rightarrow> BaseMessage list \<Rightarrow> BaseMessage list" where
  "processedMessages svc messages =
     (if currentProvider svc = Some google then preprocessForGoogle messages else messages)"

text \<open>The body of the \<open>try\<close> block of \<open>chat\<close>.\<close>

definition chatAttempt :: "Backend \<Rightarrow> LLMService \<Rightarrow> BaseChatModel \<Rightarrow> BaseMessage list \<Rightarrow> World
    \<Rightarrow> (JSError + string) \<times> World" where
  "chatAttempt backend svc m messages w =
     (let outcome = backend (calls w) m (processedMessages svc messages)
      in (race outcome, w\<lparr>calls := Suc (calls w), clock := clock w + elapsed outcome\<rparr>))"

text \<open>
  \<open>chat\<close>: with no model the mock reply quotes the last message; reading the last
  element of an empty array gives \<open>undefined\<close>, whose \<open>content\<close> cannot be read. That
  path is outside the \<open>try\<close> block. With a model, every exception of the attempt is
  turned into a reply.
\<close>

definition chat :: "Backend \<Rightarrow> LLMService \<Rightarrow> BaseMessage list \<Rightarrow> World
    \<Rightarrow> (JSError + string) \<times> World" where
  "chat backend svc messages w =
     (case model svc of
        None \<Rightarrow>
          (if messages = []
           then (Inl (TypeError ''Cannot read properties of undefined (reading 'content')''), w)
           else (Inr (mockReply (content (last messages))), w))
      | Some m \<Rightarrow>
          (case chatAttempt backend svc m messages w of
             (Inr result, w') \<Rightarrow> (Inr result, w')
           | (Inl error, w') \<Rightarrow>
               (Inr (''Error connecting to '' @ providerText (currentProvider svc) @ '': '' @ message error),
                w')))"

section \<open>AgentFileSystem\<close>

record AgentFileSystem =
  projectRoot :: string
  backupDir :: string

definition AgentFileSystem_new :: "string \<Rightarrow> AgentFileSystem" where
  "AgentFileSystem_new root =
     \<lparr>projectRoot = root, backupDir = join ''/'' [root, ''.agent_workspace'', ''backups'']\<rparr>"

definition basename :: "string \<Rightarrow> string" where
  "basename p = rev (takeWhile (\<lambda>c. c \<noteq> CHR ''/'') (rev p))"

text \<open>\<open>writeSafe\<close>: an existing file is copied to the backup directory first, then the
  content is written; the full path is returned. Writing is taken to succeed.\<close>

definition writeSafe :: "AgentFileSystem \<Rightarrow> string \<Rightarrow> string \<Rightarrow> World \<Rightarrow> string \<times> World" where
  "writeSafe afs relativePath content' w =
     (let fullPath = join ''/'' [projectRoot afs, relativePath];
          w1 = (case files w relativePath of
                  Some old \<Rightarrow> w\<lparr>backups := backups w @ [(basename relativePath, old)]\<rparr>
                | None \<Rightarrow> w)
      in (fullPath, w1\<lparr>files := (files w1)(relativePath \<mapsto> content')\<rparr>))"

text \<open>\<open>readFile\<close> is the file-system library's: reading a file that does not exist
  rejects with the system's \<open>ENOENT\<close> error.\<close>

definition readFile :: "AgentFileSystem \<Rightarrow> string \<Rightarrow> World \<Rightarrow> JSError + string" where
  "readFile afs relativePath w =
     (case files w relativePath of
        None \<Rightarrow>
          Inl (Error (''ENOENT: no such file or directory, open '' @ [CHR 0x27] @
                      join ''/'' [projectRoot afs, relativePath] @ [CHR 0x27]))
      | Some text \<Rightarrow> Inr text)"

section \<open>Task trees\<close>

datatype Status = pending | in_progress | completed | blocked

datatype NodeType = project | main_task | sub_task | todo | step

datatype TaskNode =
  TaskNode (node_id: string) (title: string) (status: Status) (node_type: NodeType)
    (children: "TaskNode list option") (decomposed: "bool option")

text \<open>
  \<open>JSON.parse\<close> builds a fresh tree, so an object reference into it is the path of
  child indices that leads from the root to the node. Reading through a reference
  and assigning \<open>children\<close> and \<open>decomposed\<close> through it follow the path.
\<close>

type_synonym NodeRef = "nat list"

primrec node_at :: "TaskNode \<Rightarrow> NodeRef \<Rightarrow> TaskNode option" where
  "node_at n [] = Some n"
| "node_at n (k # ref) =
     (case children n of
        None \<Rightarrow> None
      | Some cs \<Rightarrow> if k < length cs then node_at (cs ! k) ref else None)"

primrec modify_at :: "(TaskNode \<Rightarrow> TaskNode) \<Rightarrow> TaskNode \<Rightarrow> NodeRef \<Rightarrow> TaskNode" where
  "modify_at f n [] = f n"
| "modify_at f n (k # ref) =
     (case children n of
        None \<Rightarrow> n
      | Some cs \<Rightarrow>
          if k < length cs
          then TaskNode (node_id n) (title n) (status n) (node_type n)
                 (Some (cs[k := modify_at f (cs ! k) ref])) (decomposed n)
          else n)"

text \<open>\<open>task.children = subTasks; task.decomposed = true\<close>\<close>

definition attachSubTasks :: "TaskNode list \<Rightarrow> TaskNode \<Rightarrow> TaskNode" where
  "attachSubTasks subTasks task =
     TaskNode (node_id task) (title task) (status task) (node_type task) (Some subTasks) (Some True)"

text \<open>The JSON library is a parameter too: parsing a text at the type the source
  reads it at (one node, or an array of nodes) and printing a tree.\<close>

record Env =
  backend :: Backend
  JSON_parse_node :: "string \<Rightarrow> JSError + TaskNode"
  JSON_parse_nodes :: "string \<Rightarrow> JSError + TaskNode list"
  JSON_stringify :: "TaskNode \<Rightarrow> string"

section \<open>WorkflowEngine\<close>

datatype WorkflowStep =
  INITIATION | TASK_GENERATION | DECOMPOSITION | ANALYSIS | COORDINATION | PLANNING
  | EXECUTION | COMPLETED

fun stepNumber :: "WorkflowStep \<Rightarrow> nat" where
  "stepNumber INITIATION = 1"
| "stepNumber TASK_GENERATION = 2"
| "stepNumber DECOMPOSITION = 3"
| "stepNumber ANALYSIS = 4"
| "stepNumber COORDINATION = 5"
| "stepNumber PLANNING = 6"
| "stepNumber EXECUTION = 7"
| "stepNumber COMPLETED = 8"

record ProjectContext =
  name :: string
  description :: string
  requirements :: "string list"
  chatHistory :: "BaseMessage list"

text \<open>The engine's fields; its \<open>context\<close> field is \<open>projectContext\<close> here.\<close>

record WorkflowEngine =
  llm :: LLMService
  fs :: AgentFileSystem
  currentStep :: WorkflowStep
  projectContext :: ProjectContext
  isDecomposing :: bool

definition WorkflowEngine_new :: "AgentFileSystem \<Rightarrow> WorkflowEngine" where
  "WorkflowEngine_new fileSystem =
     \<lparr>llm = LLMService_new,
      fs = fileSystem,
      currentStep = INITIATION,
      projectContext = \<lparr>name = ''Untitled Project'', description = [], requirements = [],
                 chatHistory = []\<rparr>,
      isDecomposing = False\<rparr>"

definition pushHistory :: "BaseMessage \<Rightarrow> WorkflowEngine \<Rightarrow> WorkflowEngine" where
  "pushHistory m eng = eng\<lparr>projectContext := (projectContext eng)\<lparr>chatHistory := chatHistory (projectContext eng) @ [m]\<rparr>\<rparr>"

text \<open>The text of the last history entry, lowercased; the last element of an empty
  history is \<open>undefined\<close>.\<close>

definition lastUserMsg :: "WorkflowEngine \<Rightarrow> JSError + string" where
  "lastUserMsg eng =
     (if chatHistory (projectContext eng) = []
      then Inl (TypeError ''Cannot read properties of undefined (reading 'content')'')
      else Inr (toLowerCase (content (last (chatHistory (projectContext eng))))))"

definition sleep :: "nat \<Rightarrow> World \<Rightarrow> World" where
  "sleep ms w = w\<lparr>clock := clock w + ms\<rparr>"

text \<open>The JSON-extraction step of both generation paths.\<close>

definition cleanJson :: "string \<Rightarrow> string" where
  "cleanJson response = trim (removeAllMatches ''```'' (removeAllMatches ''```json'' response))"

subsection \<open>Step 1 and task generation\<close>

definition systemPrompt :: "ProjectContext \<Rightarrow> string" where
  \<open>systemPrompt ctx =
     ''You are an **Agentic Project Manager AI** guiding the user through a multi-step autonomous project planning process.\<newline>'' @
     ''\<newline>'' @
     ''## The 7-Step Process (You Are on Step 1)\<newline>'' @
     ''1. **Initiation** (CURRENT) - Interview the user about their project.\<newline>'' @
     ''2. **Task Generation** - Convert requirements into high-level tasks.\<newline>'' @
     ''3. **Decomposition** - Break tasks into actionable sub-tasks.\<newline>'' @
     ''4. **Analysis** - Evaluate dependencies and complexity.\<newline>'' @
     ''5. **Coordination** - Plan parallel execution opportunities.\<newline>'' @
     ''6. **Planning** - Generate implementation steps for each task.\<newline>'' @
     ''7. **Execution** - (Future) The agent autonomously writes code.\<newline>'' @
     ''\<newline>'' @
     ''## Your Role (Step 1: Initiation)\<newline>'' @
     ''- Ask clarifying questions about the user's **project idea**.\<newline>'' @
     ''- Focus on:\<newline>'' @
     ''  - What is the goal of the project?\<newline>'' @
     ''  - What technologies or platforms are involved (if any)?\<newline>'' @
     ''  - What are the core features or components?\<newline>'' @
     ''- **DO NOT** ask about implementation details, formatting, file structures, or code specifics. Those will be addressed automatically in later steps.\<newline>'' @
     ''\<newline>'' @
     ''## Current Knowledge\<newline>'' @
     ''- Project Name: '' @
     name ctx @
     ''\<newline>'' @
     ''- Description: '' @
     (if description ctx \<noteq> [] then description ctx else ''Not yet defined'') @
     ''\<newline>'' @
     ''\<newline>'' @
     ''## Instructions\<newline>'' @
     ''- Use **Markdown formatting** (**bold**, lists) for readability.\<newline>'' @
     ''- Keep responses concise (2-4 sentences max per point).\<newline>'' @
     ''- When you have enough information (project goal, scope, and key features), **summarize** and ask:\<newline>'' @
     ''  > "I have a good understanding. Ready to proceed to **Step 2: Task Generation**?"\<newline>'' @
     ''- When the user confirms (e.g., "yes", "proceed"), end the conversation.''\<close>

definition generationPrompt :: "ProjectContext \<Rightarrow> string" where
  \<open>generationPrompt ctx =
     ''Based on our conversation, generate a JSON structure for the project tasks.\<newline>'' @
     ''        \<newline>'' @
     ''        Project Context:\<newline>'' @
     ''        '' @
     join ''\<newline>'' (map (\<lambda>m. getType m @ '': '' @ content m) (chatHistory ctx)) @
     ''\<newline>'' @
     ''\<newline>'' @
     ''        \<newline>'' @
     ''        Output MUST be a valid JSON object matching this interface:\<newline>'' @
     ''        {\<newline>'' @
     ''            "id": "root",\<newline>'' @
     ''            "title": "Project Name",\<newline>'' @
     ''            "type": "project",\<newline>'' @
     ''            "status": "pending",\<newline>'' @
     ''            "children": [\<newline>'' @
     ''                { "id": "1", "title": "Main Task 1", "type": "main-task", "status": "pending", "children": [] }\<newline>'' @
     ''            ]\<newline>'' @
     ''        }\<newline>'' @
     ''        \<newline>'' @
     ''        Create high-level "main-task" items, which are purely large scale and broad in scope, meant to act more like categories or sections of tasks and task types. Do not go deeper than main-task levels yet.\<newline>'' @
     ''        Return ONLY valid JSON. No markdown formatting.''\<close>

definition generationReply :: "TaskNode \<Rightarrow> string" where
  \<open>generationReply projectNode =
     ''**Step 2 Complete!** I've generated the initial project structure.\<newline>'' @
     ''\<newline>'' @
     ''**Project:** '' @
     title projectNode @
     ''\<newline>'' @
     ''**Tasks Created:** '' @
     numberToString (case children projectNode of None \<Rightarrow> 0 | Some cs \<Rightarrow> length cs) @
     '' high-level tasks\<newline>'' @
     ''\<newline>'' @
     ''Check the **Task Tree** view to see the structure.\<newline>'' @
     ''\<newline>'' @
     ''---\<newline>'' @
     ''\<newline>'' @
     ''**Ready for Step 3: Decomposition?**\<newline>'' @
     ''This will break each task into actionable sub-tasks. Type **"decompose"** or **"yes"** to begin.''\<close>

definition generationFailure :: string where
  "generationFailure = ''I tried to generate tasks but failed to parse the output. Let's try again.''"

definition generateHighLevelTasks :: "Env \<Rightarrow> WorkflowEngine \<Rightarrow> World
    \<Rightarrow> (JSError + string) \<times> WorkflowEngine \<times> World" where
  "generateHighLevelTasks env eng w =
     (let messages = [HumanMessage (generationPrompt (projectContext eng))] in
      case chat (backend env) (llm eng) messages w of
        (Inl e, w1) \<Rightarrow> (Inl e, eng, w1)
      | (Inr response, w1) \<Rightarrow>
          (case JSON_parse_node env (cleanJson response) of
             Inl e \<Rightarrow> (Inr generationFailure, eng, w1)
           | Inr projectNode \<Rightarrow>
               (let (fullPath, w2) = writeSafe (fs eng) ''tasks.json'' (JSON_stringify env projectNode) w1;
                    eng1 = eng\<lparr>currentStep := DECOMPOSITION\<rparr>
                in (Inr (generationReply projectNode), eng1, w2))))"

definition handleInitiationStep :: "Env \<Rightarrow> WorkflowEngine \<Rightarrow> World
    \<Rightarrow> (JSError + string) \<times> WorkflowEngine \<times> World" where
  "handleInitiationStep env eng w =
     (case lastUserMsg eng of
        Inl e \<Rightarrow> (Inl e, eng, w)
      | Inr lastMsg \<Rightarrow>
          if js_includes lastMsg ''yes'' \<or> js_includes lastMsg ''proceed''
             \<or> js_includes lastMsg ''looks good''
          then generateHighLevelTasks env (eng\<lparr>currentStep := TASK_GENERATION\<rparr>) w
          else
            (let history = chatHistory (projectContext eng);
                 messages = SystemMessage (systemPrompt (projectContext eng))
                            # drop (length history - 10) history;
                 (r, w1) = chat (backend env) (llm eng) messages w
             in (r, eng, w1)))"

subsection \<open>Step 3: decomposition\<close>

text \<open>
  \<open>findTasksToDecompose\<close>: the node itself is pushed when it is a main task that has
  not been decomposed and has no children, then the children are visited in order;
  \<open>results\<close> is the one array all the calls push to.
\<close>

fun findTasksToDecompose :: "NodeRef \<Rightarrow> TaskNode \<Rightarrow> NodeRef list \<Rightarrow> NodeRef list"
  and findInChildren :: "NodeRef \<Rightarrow> nat \<Rightarrow> TaskNode list \<Rightarrow> NodeRef list \<Rightarrow> NodeRef list" where
  "findTasksToDecompose ref (TaskNode i t s ty ch d) results =
     (let results1 =
            (if ty = main_task \<and> d \<noteq> Some True \<and> (ch = None \<or> ch = Some [])
             then results @ [ref] else results)
      in case ch of
           None \<Rightarrow> results1
         | Some cs \<Rightarrow> findInChildren ref 0 cs results1)"
| "findInChildren ref k [] results = results"
| "findInChildren ref k (child # rest) results =
     findInChildren ref (Suc k) rest (findTasksToDecompose (ref @ [k]) child results)"

definition decompositionPrompt :: "TaskNode \<Rightarrow> string \<Rightarrow> string" where
  \<open>decompositionPrompt task projectName =
     ''You are decomposing a task into actionable sub-tasks.\<newline>'' @
     ''\<newline>'' @
     ''**Project:** '' @
     projectName @
     ''\<newline>'' @
     ''**Task to Decompose:** '' @
     title task @
     ''\<newline>'' @
     ''\<newline>'' @
     ''Break this task into 2-5 specific, actionable sub-tasks. Each sub-task should be something a developer could complete in a focused work session.\<newline>'' @
     ''\<newline>'' @
     ''Output ONLY a valid JSON array of sub-tasks:\<newline>'' @
     ''[\<newline>'' @
     ''    { "id": "'' @
     node_id task @
     ''-1", "title": "Sub-task title", "type": "sub-task", "status": "pending", "children": [] }\<newline>'' @
     '']\<newline>'' @
     ''\<newline>'' @
     ''Rules:\<newline>'' @
     ''- Each sub-task should be specific and actionable\<newline>'' @
     ''- Use descriptive titles that explain what needs to be done\<newline>'' @
     ''- Keep the "type" as "sub-task"\<newline>'' @
     ''- All "status" should be "pending"\<newline>'' @
     ''- Return ONLY valid JSON, no markdown''\<close>

definition decomposeTask :: "Env \<Rightarrow> WorkflowEngine \<Rightarrow> TaskNode \<Rightarrow> string \<Rightarrow> World
    \<Rightarrow> (JSError + TaskNode list) \<times> World" where
  "decomposeTask env eng task projectName w =
     (let messages = [HumanMessage (decompositionPrompt task projectName)] in
      case chat (backend env) (llm eng) messages w of
        (Inl e, w1) \<Rightarrow> (Inl e, w1)
      | (Inr response, w1) \<Rightarrow>
          (case JSON_parse_nodes env (cleanJson response) of
             Inl e \<Rightarrow> (Inl (Error ''Failed to parse LLM response''), w1)
           | Inr subTasks \<Rightarrow> (Inr subTasks, w1)))"

definition checkMark :: string where
  "checkMark = [CHR 0xE2, CHR 0x9C, CHR 0x85]"

definition rightArrow :: string where
  "rightArrow = [CHR 0xE2, CHR 0x86, CHR 0x92]"

definition warningSign :: string where
  "warningSign = [CHR 0xE2, CHR 0x9A, CHR 0xA0, CHR 0xEF, CHR 0xB8, CHR 0x8F]"

definition successLine :: "TaskNode \<Rightarrow> TaskNode list \<Rightarrow> string" where
  "successLine task subTasks =
     checkMark @ '' **'' @ title task @ ''** '' @ rightArrow @ '' '' @
     numberToString (length subTasks) @ '' sub-tasks''"

definition failureLine :: "TaskNode \<Rightarrow> JSError \<Rightarrow> string" where
  "failureLine task e = warningSign @ '' **'' @ title task @ ''** - Failed: '' @ message e"

text \<open>
  The state of the loop over \<open>tasksToDecompose\<close>: the tree, \<open>decomposedCount\<close>,
  \<open>results\<close> and the world. One round waits 1500 ms except before the first task,
  asks for the sub-tasks and either attaches a non-empty answer and records a success
  line, or records a failure line for an exception. A reference that leads nowhere
  reads as \<open>undefined\<close>, whose title cannot be read.
\<close>

definition decomposeRound :: "Env \<Rightarrow> WorkflowEngine \<Rightarrow> nat \<Rightarrow> NodeRef
    \<Rightarrow> TaskNode \<times> nat \<times> string list \<times> World \<Rightarrow> TaskNode \<times> nat \<times> string list \<times> World" where
  "decomposeRound env eng i ref st =
     (case st of (rootTask, decomposedCount, results, w) \<Rightarrow>
        (let w0 = (if i > 0 then sleep 1500 w else w) in
         case node_at rootTask ref of
           None \<Rightarrow> (rootTask, decomposedCount, results, w0)
         | Some task \<Rightarrow>
             (case decomposeTask env eng task (title rootTask) w0 of
                (Inr subTasks, w1) \<Rightarrow>
                  if length subTasks > 0
                  then (modify_at (attachSubTasks subTasks) rootTask ref,
                        decomposedCount + 1,
                        results @ [successLine task subTasks],
                        w1)
                  else (rootTask, decomposedCount, results, w1)
              | (Inl e, w1) \<Rightarrow>
                  (rootTask, decomposedCount, results @ [failureLine task e], w1))))"

fun decomposeLoop :: "Env \<Rightarrow> WorkflowEngine \<Rightarrow> nat \<Rightarrow> NodeRef list
    \<Rightarrow> TaskNode \<times> nat \<times> string list \<times> World \<Rightarrow> TaskNode \<times> nat \<times> string list \<times> World" where
  "decomposeLoop env eng i [] st = st"
| "decomposeLoop env eng i (ref # rest) st =
     decomposeLoop env eng (Suc i) rest (decomposeRound env eng i ref st)"

definition decompositionReply :: "string list \<Rightarrow> nat \<Rightarrow> string" where
  \<open>decompositionReply results decomposedCount =
     ''**Decomposition Complete!**\<newline>'' @
     ''\<newline>'' @
     join ''\<newline>'' results @
     ''\<newline>'' @
     ''\<newline>'' @
     ''---\<newline>'' @
     ''\<newline>'' @
     ''**'' @
     numberToString decomposedCount @
     ''** tasks were broken down into sub-tasks. Check the **Task Tree** to see the updated structure.\<newline>'' @
     ''\<newline>'' @
     ''Moving to **Step 4: Analysis**. Type **"analyze"** to continue.''\<close>

definition decompositionError :: "JSError \<Rightarrow> string" where
  "decompositionError e = ''Error during decomposition: '' @ message e"

text \<open>
  \<open>runDecomposition\<close>: the flag is set first. The two early returns inside the
  \<open>try\<close> block leave it as it is; the \<open>catch\<close> block and the end of the run clear
  it.
\<close>

definition runDecomposition :: "Env \<Rightarrow> WorkflowEngine \<Rightarrow> World
    \<Rightarrow> (JSError + string) \<times> WorkflowEngine \<times> World" where
  "runDecomposition env eng w =
     (let eng1 = eng\<lparr>isDecomposing := True\<rparr> in
      case readFile (fs eng1) ''tasks.json'' w of
        Inl e \<Rightarrow> (Inr (decompositionError e), eng1\<lparr>isDecomposing := False\<rparr>, w)
      | Inr tasksJson \<Rightarrow>
          if tasksJson = []
          then (Inr ''No tasks.json found. Please complete Step 2 first.'', eng1, w)
          else
            (case JSON_parse_node env tasksJson of
               Inl e \<Rightarrow> (Inr (decompositionError e), eng1\<lparr>isDecomposing := False\<rparr>, w)
             | Inr rootTask \<Rightarrow>
                 (let tasksToDecompose = findTasksToDecompose [] rootTask [] in
                  if length tasksToDecompose = 0
                  then (Inr ''All tasks are already decomposed! Moving to **Step 4: Analysis**.'',
                        eng1\<lparr>currentStep := ANALYSIS\<rparr>, w)
                  else
                    (let (rootTask1, decomposedCount, results, w1) =
                           decomposeLoop env eng1 0 tasksToDecompose (rootTask, 0, [], w);
                         (fullPath, w2) =
                           writeSafe (fs eng1) ''tasks.json'' (JSON_stringify env rootTask1) w1;
                         eng2 = eng1\<lparr>isDecomposing := False, currentStep := ANALYSIS\<rparr>
                     in (Inr (decompositionReply results decomposedCount), eng2, w2)))))"

definition decompositionMenu :: string where
  \<open>decompositionMenu =
     ''We're now in **Step 3: Decomposition**.\<newline>'' @
     ''\<newline>'' @
     ''I will analyze each high-level task and break it down into actionable sub-tasks.\<newline>'' @
     ''\<newline>'' @
     ''**Options:**\<newline>'' @
     ''- Type **"decompose"** or **"yes"** to start automatic decomposition\<newline>'' @
     ''- Type **"skip"** to move to the next step\<newline>'' @
     ''\<newline>'' @
     ''What would you like to do?''\<close>

definition handleDecompositionStep :: "Env \<Rightarrow> WorkflowEngine \<Rightarrow> World
    \<Rightarrow> (JSError + string) \<times> WorkflowEngine \<times> World" where
  "handleDecompositionStep env eng w =
     (case lastUserMsg eng of
        Inl e \<Rightarrow> (Inl e, eng, w)
      | Inr lastMsg \<Rightarrow>
          if js_includes lastMsg ''decompose'' \<or> js_includes lastMsg ''yes''
             \<or> js_includes lastMsg ''proceed'' \<or> js_includes lastMsg ''break''
          then
            (if isDecomposing eng
             then (Inr ''Decomposition is already in progress. Please wait...'', eng, w)
             else runDecomposition env eng w)
          else if js_includes lastMsg ''skip'' \<or> js_includes lastMsg ''next''
          then (Inr ''Skipping decomposition. Moving to **Step 4: Analysis**.'',
                eng\<lparr>currentStep := ANALYSIS\<rparr>, w)
          else (Inr decompositionMenu, eng, w))"

subsection \<open>processMessage\<close>

text \<open>
  The user's message is pushed, the handler of the current step produces the
  response, the response is pushed as an \<open>AIMessage\<close> and returned. An exception of
  a handler leaves \<open>processMessage\<close> before the second push. \<open>saveContext\<close> has an
  empty body.
\<close>

definition dispatch :: "Env \<Rightarrow> WorkflowEngine \<Rightarrow> World
    \<Rightarrow> (JSError + string) \<times> WorkflowEngine \<times> World" where
  "dispatch env eng w =
     (case currentStep eng of
        INITIATION \<Rightarrow> handleInitiationStep env eng w
      | TASK_GENERATION \<Rightarrow> (Inr ''I am generating the initial task list...'', eng, w)
      | DECOMPOSITION \<Rightarrow> handleDecompositionStep env eng w
      | _ \<Rightarrow>
          (Inr (''I am not ready for step '' @ numberToString (stepNumber (currentStep eng)) @ '' yet.''),
           eng, w))"

definition processMessage :: "Env \<Rightarrow> string \<Rightarrow> WorkflowEngine \<Rightarrow> World
    \<Rightarrow> (JSError + string) \<times> WorkflowEngine \<times> World" where
  "processMessage env userMessage eng w =
     (let eng1 = pushHistory (HumanMessage userMessage) eng in
      case dispatch env eng1 w of
        (Inl e, eng2, w1) \<Rightarrow> (Inl e, eng2, w1)
      | (Inr response, eng2, w1) \<Rightarrow> (Inr response, pushHistory (AIMessage response) eng2, w1))"

section \<open>The specification's notions\<close>

text \<open>A node is eligible for decomposition iff its type is main-task, \<open>decomposed\<close> is
  not true, and it has no children.\<close>

definition eligible :: "TaskNode \<Rightarrow> bool" where
  "eligible n =
     (node_type n = main_task \<and> decomposed n \<noteq> Some True
      \<and> (children n = None \<or> children n = Some []))"

text \<open>The nodes of a tree in depth-first pre-order, and the references to them, each
  with its node, in the same order.\<close>

fun preorder :: "TaskNode \<Rightarrow> TaskNode list" where
  "preorder (TaskNode i t s ty ch d) =
     TaskNode i t s ty ch d # (case ch of None \<Rightarrow> [] | Some cs \<Rightarrow> concat (map preorder cs))"

fun preorderRefs :: "NodeRef \<Rightarrow> TaskNode \<Rightarrow> (NodeRef \<times> TaskNode) list"
  and preorderRefsFrom :: "NodeRef \<Rightarrow> nat \<Rightarrow> TaskNode list \<Rightarrow> (NodeRef \<times> TaskNode) list" where
  "preorderRefs ref (TaskNode i t s ty ch d) =
     (ref, TaskNode i t s ty ch d)
     # (case ch of None \<Rightarrow> [] | Some cs \<Rightarrow> preorderRefsFrom ref 0 cs)"
| "preorderRefsFrom ref k [] = []"
| "preorderRefsFrom ref k (child # rest) =
     preorderRefs (ref @ [k]) child @ preorderRefsFrom ref (Suc k) rest"

definition eligibleAt :: "TaskNode \<Rightarrow> NodeRef \<Rightarrow> bool" where
  "eligibleAt root r = (case node_at root r of Some n \<Rightarrow> eligible n | None \<Rightarrow> False)"



text \<open>The two keyword sets of the decomposition step, on the lowercased message.\<close>

definition confirmsDecomposition :: "string \<Rightarrow> bool" where
  "confirmsDecomposition userMessage =
     (js_includes (toLowerCase userMessage) ''decompose''
      \<or> js_includes (toLowerCase userMessage) ''yes''
      \<or> js_includes (toLowerCase userMessage) ''proceed''
      \<or> js_includes (toLowerCase userMessage) ''break'')"

definition asksToSkip :: "string \<Rightarrow> bool" where
  "asksToSkip userMessage =
     (js_includes (toLowerCase userMessage) ''skip''
      \<or> js_includes (toLowerCase userMessage) ''next'')"

section \<open>Concrete scenarios\<close>

text \<open>
  A small project, the JSON texts that go with it, and an environment whose JSON
  library knows exactly these texts; they are the inputs at which the theorems below are
  instantiated.
\<close>

definition demoSubTasksJson :: string where
  \<open>demoSubTasksJson =
     ''[{"id":"1-1","title":"Define the schema","type":"sub-task","status":"pending","children":[]}]''\<close>

definition demoSubTasks :: "TaskNode list" where
  "demoSubTasks = [TaskNode ''1-1'' ''Define the schema'' pending sub_task (Some []) None]"

definition demoTasksJson :: string where
  \<open>demoTasksJson =
     ''{"id":"root","title":"Todo app","type":"project","status":"pending","children":['' @
     ''{"id":"1","title":"Backend","type":"main-task","status":"pending","children":[]}]}''\<close>

definition demoTask :: TaskNode where
  "demoTask = TaskNode ''1'' ''Backend'' pending main_task (Some []) None"

definition demoRoot :: TaskNode where
  "demoRoot = TaskNode ''root'' ''Todo app'' pending project (Some [demoTask]) None"

text \<open>The tree after the one sub-task has been attached to the main task.\<close>

definition demoDecomposed :: TaskNode where
  "demoDecomposed =
     TaskNode ''root'' ''Todo app'' pending project
       (Some [TaskNode ''1'' ''Backend'' pending main_task (Some demoSubTasks) (Some True)]) None"

definition demoParseNode :: "string \<Rightarrow> JSError + TaskNode" where
  "demoParseNode s =
     (if s = demoTasksJson then Inr demoRoot
      else Inl (SyntaxError ''Unexpected token in JSON''))"

definition demoParseNodes :: "string \<Rightarrow> JSError + TaskNode list" where
  "demoParseNodes s =
     (if s = demoSubTasksJson then Inr demoSubTasks
      else if s = ''[]'' then Inr []
      else Inl (SyntaxError ''Unexpected token in JSON''))"

fun statusText :: "Status \<Rightarrow> string" where
  "statusText pending = ''pending''"
| "statusText in_progress = ''in-progress''"
| "statusText completed = ''completed''"
| "statusText blocked = ''blocked''"

fun typeText :: "NodeType \<Rightarrow> string" where
  "typeText project = ''project''"
| "typeText main_task = ''main-task''"
| "typeText sub_task = ''sub-task''"
| "typeText todo = ''todo''"
| "typeText step = ''step''"

fun demoStringify :: "TaskNode \<Rightarrow> string" where
  \<open>demoStringify (TaskNode i t s ty ch d) =
     ''{"id":"'' @ i @ ''","title":"'' @ t @ ''","type":"'' @ typeText ty @
     ''","status":"'' @ statusText s @ ''"'' @
     (case ch of
        None \<Rightarrow> []
      | Some cs \<Rightarrow> '',"children":['' @ join '','' (map demoStringify cs) @ '']'') @
     (case d of
        None \<Rightarrow> []
      | Some b \<Rightarrow> '',"decomposed":'' @ (if b then ''true'' else ''false'')) @
     ''}''\<close>

definition demoEnv :: "Backend \<Rightarrow> Env" where
  "demoEnv bk =
     \<lparr>backend = bk, JSON_parse_node = demoParseNode, JSON_parse_nodes = demoParseNodes,
      JSON_stringify = demoStringify\<rparr>"


definition proseBackend :: Backend where
  "proseBackend n m msgs = Completes 700 [''Sure! '', ''Here is the plan.'']"

definition fencedBackend :: Backend where
  "fencedBackend n m msgs = Completes 900 [''```json\<newline>'', demoSubTasksJson, ''\<newline>```'']"

definition emptyArrayBackend :: Backend where
  "emptyArrayBackend n m msgs = Completes 400 [''[]'']"

definition demoService :: LLMService where
  "demoService = configure ollama ''llama3'' None LLMService_new"

definition demoEngine :: "WorkflowStep \<Rightarrow> WorkflowEngine" where
  "demoEngine s =
     (WorkflowEngine_new (AgentFileSystem_new ''/home/user/todo''))
       \<lparr>llm := demoService, currentStep := s\<rparr>"

text \<open>The engine as constructed: step INITIATION, no provider configured.\<close>

definition freshEngine :: WorkflowEngine where
  "freshEngine = WorkflowEngine_new (AgentFileSystem_new ''/home/user/todo'')"

definition emptyWorld :: World where
  "emptyWorld = \<lparr>files = Map.empty, backups = [], clock = 0, calls = 0\<rparr>"

definition demoWorld :: World where
  "demoWorld = emptyWorld\<lparr>files := [''tasks.json'' \<mapsto> demoTasksJson]\<rparr>"

section \<open>Properties of the strings\<close>




section \<open>Properties of LLMService\<close>

subsection \<open>The normalization for Google\<close>










subsection \<open>chat\<close>


lemma chat_unconfigured_nonempty:
  "model svc = None \<Longrightarrow> messages \<noteq> [] \<Longrightarrow>
   chat bk svc messages w = (Inr (mockReply (content (last messages))), w)"
  by (simp add: chat_def)

lemma chat_nonempty_returns:
  "messages \<noteq> [] \<Longrightarrow> \<exists>reply w'. chat bk svc messages w = (Inr reply, w')"
  by (cases "model svc") (auto simp: chat_def split: prod.splits sum.splits)

lemma chat_files: "files (snd (chat bk svc messages w)) = files w"
  by (cases "model svc") (auto simp: chat_def chatAttempt_def Let_def split: prod.splits sum.splits)



text \<open>
  C5. On a service with no provider configured, \<open>chat\<close> answers a non-empty message
  list with the mock reply that quotes the content of the last message
  (\<open>chat_unconfigured_nonempty\<close>). The empty list is the case the code misses: the
  last element of an empty array is \<open>undefined\<close>, reading its \<open>content\<close> raises a
  \<open>TypeError\<close>, and this path is outside the \<open>try\<close> block of \<open>chat\<close>.
\<close>

theorem chat_unconfigured_empty_raises:
  "chat bk LLMService_new [] w
     = (Inl (TypeError ''Cannot read properties of undefined (reading 'content')''), w)"
  by (simp add: chat_def LLMService_new_def)

section \<open>Properties of WorkflowEngine\<close>

subsection \<open>The chat history\<close>

lemma generateHighLevelTasks_returns:
  "\<exists>response eng' w'. generateHighLevelTasks env eng w = (Inr response, eng', w')
      \<and> projectContext eng' = projectContext eng"
proof -
  obtain reply w1 where
    "chat (backend env) (llm eng) [HumanMessage (generationPrompt (projectContext eng))] w = (Inr reply, w1)"
    using chat_nonempty_returns [of "[HumanMessage (generationPrompt (projectContext eng))]"] by blast
  then show ?thesis
    by (simp add: generateHighLevelTasks_def split: sum.splits prod.splits)
qed

lemma runDecomposition_returns:
  "\<exists>response eng' w'. runDecomposition env eng w = (Inr response, eng', w')
      \<and> projectContext eng' = projectContext eng"
  by (simp add: runDecomposition_def Let_def split: sum.splits prod.splits)

lemma handleInitiationStep_returns:
  assumes "chatHistory (projectContext eng) \<noteq> []"
  shows "\<exists>response eng' w'. handleInitiationStep env eng w = (Inr response, eng', w')
      \<and> projectContext eng' = projectContext eng"
proof -
  let ?msgs = "SystemMessage (systemPrompt (projectContext eng))
      # drop (length (chatHistory (projectContext eng)) - 10) (chatHistory (projectContext eng))"
  obtain reply w1 where c: "chat (backend env) (llm eng) ?msgs w = (Inr reply, w1)"
    using chat_nonempty_returns [of ?msgs] by blast
  obtain r2 e2 w2 where g:
    "generateHighLevelTasks env (eng\<lparr>currentStep := TASK_GENERATION\<rparr>) w = (Inr r2, e2, w2)"
    "projectContext e2 = projectContext (eng\<lparr>currentStep := TASK_GENERATION\<rparr>)"
    using generateHighLevelTasks_returns by blast
  show ?thesis using assms c g
    by (simp add: handleInitiationStep_def lastUserMsg_def Let_def)
qed

lemma handleDecompositionStep_returns:
  assumes "chatHistory (projectContext eng) \<noteq> []"
  shows "\<exists>response eng' w'. handleDecompositionStep env eng w = (Inr response, eng', w')
      \<and> projectContext eng' = projectContext eng"
  using assms runDecomposition_returns [of env eng w]
  by (auto simp add: handleDecompositionStep_def lastUserMsg_def)

lemma dispatch_returns:
  assumes "chatHistory (projectContext eng) \<noteq> []"
  shows "\<exists>response eng' w'. dispatch env eng w = (Inr response, eng', w')
      \<and> projectContext eng' = projectContext eng"
  using handleInitiationStep_returns [OF assms, of env w]
    handleDecompositionStep_returns [OF assms, of env w]
  by (cases "currentStep eng") (simp_all add: dispatch_def)

text \<open>
  C9. Every call of \<open>processMessage\<close>, in any state of the engine and of the world,
  returns a response, and the chat history afterwards is the history before followed
  by exactly two entries: the user's message as a human message, then the returned
  response as an AI message. Nothing is removed or reordered.
\<close>

theorem processMessage_appends_two:
  "\<exists>response eng' w'.
     processMessage env userMessage eng w = (Inr response, eng', w')
     \<and> chatHistory (projectContext eng')
         = chatHistory (projectContext eng) @ [HumanMessage userMessage, AIMessage response]"
proof -
  let ?eng1 = "pushHistory (HumanMessage userMessage) eng"
  have h: "chatHistory (projectContext ?eng1)
             = chatHistory (projectContext eng) @ [HumanMessage userMessage]"
    by (simp add: pushHistory_def)
  then have "chatHistory (projectContext ?eng1) \<noteq> []" by simp
  from dispatch_returns [OF this, of env w]
  obtain response eng2 w1 where d: "dispatch env ?eng1 w = (Inr response, eng2, w1)"
    and c: "projectContext eng2 = projectContext ?eng1" by blast
  have "processMessage env userMessage eng w
          = (Inr response, pushHistory (AIMessage response) eng2, w1)"
    using d by (simp add: processMessage_def)
  moreover have "chatHistory (projectContext (pushHistory (AIMessage response) eng2))
      = chatHistory (projectContext eng) @ [HumanMessage userMessage, AIMessage response]"
    using c h by (simp add: pushHistory_def)
  ultimately show ?thesis by blast
qed

subsection \<open>The traversal\<close>

lemma find_as_filter:
  "findTasksToDecompose ref n results
     = results @ map fst (filter (\<lambda>(r, m). eligible m) (preorderRefs ref n))"
  "findInChildren ref k cs results
     = results @ map fst (filter (\<lambda>(r, m). eligible m) (preorderRefsFrom ref k cs))"
proof (induction ref n results and ref k cs results rule: findTasksToDecompose_findInChildren.induct)
  case (1 ref i t s ty ch d results)
  show ?case
  proof (cases ch)
    case None
    then show ?thesis by (simp add: eligible_def)
  next
    case (Some cs)
    from "1.IH" [OF refl Some] Some show ?thesis
      by (simp add: eligible_def)
  qed
next
  case (2 ref k results)
  show ?case by simp
next
  case (3 ref k child rest results)
  then show ?case by simp
qed

lemma preorderRefs_nodes:
  "map snd (preorderRefs ref n) = preorder n"
  "map snd (preorderRefsFrom ref k cs) = concat (map preorder cs)"
  by (induction ref n and ref k cs rule: preorderRefs_preorderRefsFrom.induct)
     (auto split: option.splits)

lemma preorderRefs_valid:
  "(r, m) \<in> set (preorderRefs ref n) \<Longrightarrow> \<exists>p. r = ref @ p \<and> node_at n p = Some m"
  "(r, m) \<in> set (preorderRefsFrom ref k cs) \<Longrightarrow>
      \<exists>j p. j < length cs \<and> r = ref @ (k + j) # p \<and> node_at (cs ! j) p = Some m"
proof (induction ref n and ref k cs arbitrary: r m and r m rule: preorderRefs_preorderRefsFrom.induct)
  case (1 ref i t s ty ch d)
  from "1.prems" consider "r = ref \<and> m = TaskNode i t s ty ch d"
    | cs where "ch = Some cs" "(r, m) \<in> set (preorderRefsFrom ref 0 cs)"
    by (auto split: option.splits)
  then show ?case
  proof cases
    case 1
    then have "r = ref @ [] \<and> node_at (TaskNode i t s ty ch d) [] = Some m" by simp
    then show ?thesis by blast
  next
    case (2 cs)
    note ch = 2(1) and mem = 2(2)
    from "1.IH" [OF ch mem] obtain j p where
      "j < length cs" "r = ref @ (0 + j) # p" "node_at (cs ! j) p = Some m"
      by blast
    then have "r = ref @ (j # p) \<and> node_at (TaskNode i t s ty ch d) (j # p) = Some m"
      using ch by simp
    then show ?thesis by blast
  qed
next
  case (2 ref k)
  then show ?case by simp
next
  case (3 ref k child rest)
  from "3.prems" consider "(r, m) \<in> set (preorderRefs (ref @ [k]) child)"
    | "(r, m) \<in> set (preorderRefsFrom ref (Suc k) rest)" by auto
  then show ?case
  proof cases
    case 1
    from "3.IH"(1) [OF 1] obtain p where "r = (ref @ [k]) @ p" "node_at child p = Some m"
      by blast
    then have "0 < length (child # rest) \<and> r = ref @ (k + 0) # p
        \<and> node_at ((child # rest) ! 0) p = Some m"
      by simp
    then show ?thesis by blast
  next
    case 2
    from "3.IH"(2) [OF 2] obtain j p where
      "j < length rest" "r = ref @ (Suc k + j) # p" "node_at (rest ! j) p = Some m"
      by blast
    then have "Suc j < length (child # rest) \<and> r = ref @ (k + Suc j) # p
        \<and> node_at ((child # rest) ! Suc j) p = Some m"
      by simp
    then show ?thesis by blast
  qed
qed

lemma preorderRefs_root_valid:
  "(r, m) \<in> set (preorderRefs [] root) \<Longrightarrow> node_at root r = Some m"
  using preorderRefs_valid(1) [of r m "[]" root] by simp

lemma preorderRefs_distinct:
  "distinct (map fst (preorderRefs ref n))"
  "distinct (map fst (preorderRefsFrom ref k cs))"
proof (induction ref n and ref k cs rule: preorderRefs_preorderRefsFrom.induct)
  case (1 ref i t s ty ch d)
  show ?case
  proof (cases ch)
    case None
    then show ?thesis by simp
  next
    case (Some cs)
    have "ref \<notin> fst ` set (preorderRefsFrom ref 0 cs)"
    proof
      assume "ref \<in> fst ` set (preorderRefsFrom ref 0 cs)"
      then obtain m where "(ref, m) \<in> set (preorderRefsFrom ref 0 cs)" by auto
      from preorderRefs_valid(2) [OF this] show False by auto
    qed
    with "1.IH" [OF Some] Some show ?thesis by simp
  qed
next
  case (2 ref k)
  show ?case by simp
next
  case (3 ref k child rest)
  have "fst ` set (preorderRefs (ref @ [k]) child) \<inter> fst ` set (preorderRefsFrom ref (Suc k) rest) = {}"
  proof (rule ccontr)
    assume "\<not> ?thesis"
    then obtain r m m' where a: "(r, m) \<in> set (preorderRefs (ref @ [k]) child)"
      and b: "(r, m') \<in> set (preorderRefsFrom ref (Suc k) rest)" by auto
    from preorderRefs_valid(1) [OF a] obtain p where "r = (ref @ [k]) @ p" by blast
    moreover from preorderRefs_valid(2) [OF b] obtain j p' where "r = ref @ (Suc k + j) # p'" by blast
    ultimately show False by simp
  qed
  with 3 show ?case by simp
qed

lemma findTasksToDecompose_distinct: "distinct (findTasksToDecompose [] root [])"
  by (simp add: find_as_filter distinct_map_filter preorderRefs_distinct)

text \<open>
  C3. For every task tree, the references that \<open>findTasksToDecompose\<close> returns are
  exactly the references to the nodes that are eligible (type main-task, \<open>decomposed\<close>
  not true, children empty or absent), each once, in the depth-first pre-order of the
  tree; read through, they give the eligible nodes of the pre-order enumeration, in
  that order.
\<close>

theorem findTasksToDecompose_preorder:
  "map snd (preorderRefs [] root) = preorder root
   \<and> map (node_at root) (map fst (preorderRefs [] root)) = map Some (preorder root)
   \<and> distinct (map fst (preorderRefs [] root))
   \<and> findTasksToDecompose [] root [] = filter (eligibleAt root) (map fst (preorderRefs [] root))
   \<and> map (node_at root) (findTasksToDecompose [] root [])
       = map Some (filter eligible (preorder root))"
proof -
  have a: "map snd (preorderRefs [] root) = preorder root"
    by (rule preorderRefs_nodes)
  have v: "map (node_at root \<circ> fst) (preorderRefs [] root)
         = map (Some \<circ> snd) (preorderRefs [] root)"
    by (rule map_cong) (auto simp: preorderRefs_root_valid)
  have b: "map (node_at root) (map fst (preorderRefs [] root)) = map Some (preorder root)"
    using v a by (metis map_map)
  have f: "filter (eligibleAt root \<circ> fst) (preorderRefs [] root)
         = filter (\<lambda>(r, m). eligible m) (preorderRefs [] root)"
    by (rule filter_cong) (auto simp: eligibleAt_def preorderRefs_root_valid)
  have c: "findTasksToDecompose [] root []
         = filter (eligibleAt root) (map fst (preorderRefs [] root))"
    using f by (simp add: find_as_filter filter_map)
  have g: "map (node_at root \<circ> fst) (filter (\<lambda>(r, m). eligible m) (preorderRefs [] root))
         = map (Some \<circ> snd) (filter (\<lambda>(r, m). eligible m) (preorderRefs [] root))"
    by (rule map_cong) (auto simp: preorderRefs_root_valid)
  have h: "filter (\<lambda>(r, m). eligible m) (preorderRefs [] root)
         = filter (eligible \<circ> snd) (preorderRefs [] root)"
    by (rule filter_cong) auto
  have "map (node_at root) (findTasksToDecompose [] root [])
        = map Some (map snd (filter (eligible \<circ> snd) (preorderRefs [] root)))"
    using g h by (simp add: find_as_filter)
  also have "\<dots> = map Some (filter eligible (preorder root))"
    using a by (metis filter_map)
  finally have d: "map (node_at root) (findTasksToDecompose [] root [])
      = map Some (filter eligible (preorder root))" .
  show ?thesis using a b c d preorderRefs_distinct(1) [of "[]" root] by blast
qed

subsection \<open>Task generation\<close>

lemma lastUserMsg_push:
  "lastUserMsg (pushHistory (HumanMessage userMessage) eng) = Inr (toLowerCase userMessage)"
  by (simp add: lastUserMsg_def pushHistory_def HumanMessage_def)

lemma pushHistory_fields [simp]:
  "currentStep (pushHistory m eng) = currentStep eng"
  "isDecomposing (pushHistory m eng) = isDecomposing eng"
  "llm (pushHistory m eng) = llm eng"
  "fs (pushHistory m eng) = fs eng"
  by (simp_all add: pushHistory_def)

lemma removeAllMatches_keeps_head:
  "pat \<noteq> [] \<Longrightarrow> hd pat \<noteq> c \<Longrightarrow> removeAllMatches pat (c # s) = c # removeAllMatches pat s"
  by (cases pat) (auto simp: startsWith_def)

lemma trim_keeps_head: "\<not> isSpace c \<Longrightarrow> \<exists>rest. trim (c # s) = c # rest"
  by (simp add: trim_def dropWhile_append3)

lemma cleanJson_keeps_head:
  assumes "\<not> isSpace c" "c \<noteq> CHR 0x60"
  shows "\<exists>rest. cleanJson (c # s) = c # rest"
proof -
  have a: "removeAllMatches ''```json'' (c # s) = c # removeAllMatches ''```json'' s"
    using assms(2) by (intro removeAllMatches_keeps_head) simp_all
  have b: "removeAllMatches ''```'' (c # t) = c # removeAllMatches ''```'' t" for t
    using assms(2) by (intro removeAllMatches_keeps_head) simp_all
  have "cleanJson (c # s) = trim (c # removeAllMatches ''```'' (removeAllMatches ''```json'' s))"
    by (simp only: cleanJson_def a b)
  then show ?thesis
    using trim_keeps_head [OF assms(1)] by simp
qed

lemma cleanJson_mockReply: "\<exists>rest. cleanJson (mockReply p) = CHR ''['' # rest"
proof -
  have "\<exists>s. mockReply p = CHR ''['' # s" by (simp add: mockReply_def)
  then obtain s where "mockReply p = CHR ''['' # s" by blast
  then show ?thesis
    using cleanJson_keeps_head [of "CHR ''[''" s] by (simp add: isSpace_def)
qed

lemma demo_parse_mockReply:
  "JSON_parse_node (demoEnv bk) (cleanJson (mockReply p)) = Inl (SyntaxError ''Unexpected token in JSON'')"
proof -
  obtain rest where "cleanJson (mockReply p) = CHR ''['' # rest"
    using cleanJson_mockReply by blast
  then show ?thesis
    by (simp add: demoEnv_def demoParseNode_def demoTasksJson_def)
qed

text \<open>
  C1. The engine is at INITIATION, the user confirms, and the answer of the model does
  not parse. \<open>processMessage\<close> returns the failure message, raises nothing and writes
  no file. But \<open>handleInitiationStep\<close> has set the step to TASK_GENERATION before
  the generation started and nothing sets it back: the step after the call is
  TASK_GENERATION, not INITIATION, and every later message is answered by the
  placeholder of that step, with no request to the model. The generation cannot be
  tried again.
\<close>

theorem generation_failure_advances_step:
  assumes step: "currentStep eng = INITIATION"
    and confirm: "js_includes (toLowerCase userMessage) ''yes''
                  \<or> js_includes (toLowerCase userMessage) ''proceed''
                  \<or> js_includes (toLowerCase userMessage) ''looks good''"
    and reply: "chat (backend env) (llm eng)
                  [HumanMessage (generationPrompt
                     (projectContext (pushHistory (HumanMessage userMessage) eng)))] w
                = (Inr response, w1)"
    and parse: "JSON_parse_node env (cleanJson response) = Inl e"
  shows "processMessage env userMessage eng w
           = (Inr generationFailure,
              pushHistory (AIMessage generationFailure)
                ((pushHistory (HumanMessage userMessage) eng)\<lparr>currentStep := TASK_GENERATION\<rparr>),
              w1)
         \<and> files w1 = files w
         \<and> currentStep (fst (snd (processMessage env userMessage eng w))) = TASK_GENERATION
         \<and> processMessage env next (fst (snd (processMessage env userMessage eng w))) w1
             = (Inr ''I am generating the initial task list...'',
                pushHistory (AIMessage ''I am generating the initial task list...'')
                  (pushHistory (HumanMessage next) (fst (snd (processMessage env userMessage eng w)))),
                w1)"
proof -
  let ?eng1 = "pushHistory (HumanMessage userMessage) eng"
  let ?eng2 = "?eng1\<lparr>currentStep := TASK_GENERATION\<rparr>"
  have ctx: "projectContext ?eng2 = projectContext ?eng1" by simp
  have gen: "generateHighLevelTasks env ?eng2 w = (Inr generationFailure, ?eng2, w1)"
    using reply parse by (simp add: generateHighLevelTasks_def)
  have "handleInitiationStep env ?eng1 w = (Inr generationFailure, ?eng2, w1)"
    using confirm gen by (auto simp add: handleInitiationStep_def lastUserMsg_push)
  then have d: "dispatch env ?eng1 w = (Inr generationFailure, ?eng2, w1)"
    using step by (simp add: dispatch_def)
  then have pm: "processMessage env userMessage eng w
           = (Inr generationFailure, pushHistory (AIMessage generationFailure) ?eng2, w1)"
    by (simp add: processMessage_def)
  have f: "files w1 = files w"
    using chat_files [of "backend env" "llm eng" _ w] reply by (metis snd_conv)
  have nxt: "processMessage env next (pushHistory (AIMessage generationFailure) ?eng2) w1
             = (Inr ''I am generating the initial task list...'',
                pushHistory (AIMessage ''I am generating the initial task list...'')
                  (pushHistory (HumanMessage next) (pushHistory (AIMessage generationFailure) ?eng2)),
                w1)"
    by (simp add: processMessage_def dispatch_def)
  show ?thesis using pm f nxt by simp
qed

theorem generation_failure_advances_step_witness:
  "currentStep freshEngine = INITIATION
   \<and> js_includes (toLowerCase ''Yes, proceed'') ''yes''
   \<and> model (llm freshEngine) = None
   \<and> processMessage (demoEnv proseBackend) ''Yes, proceed'' freshEngine emptyWorld
       = (Inr generationFailure,
          pushHistory (AIMessage generationFailure)
            ((pushHistory (HumanMessage ''Yes, proceed'') freshEngine)\<lparr>currentStep := TASK_GENERATION\<rparr>),
          emptyWorld)
   \<and> currentStep (fst (snd (processMessage (demoEnv proseBackend) ''Yes, proceed''
        freshEngine emptyWorld))) = TASK_GENERATION"
proof -
  have step: "currentStep freshEngine = INITIATION"
    and none: "model (llm freshEngine) = None"
    by (simp_all add: freshEngine_def WorkflowEngine_new_def LLMService_new_def)
  have kw: "js_includes (toLowerCase ''Yes, proceed'') ''yes''"
    by (simp add: toLowerCase_def lowerChar_def startsWith_def)
  let ?prompt = "generationPrompt
                   (projectContext (pushHistory (HumanMessage ''Yes, proceed'') freshEngine))"
  have reply: "chat (backend (demoEnv proseBackend)) (llm freshEngine) [HumanMessage ?prompt] emptyWorld
               = (Inr (mockReply ?prompt), emptyWorld)"
    using chat_unconfigured_nonempty [OF none, of "[HumanMessage ?prompt]"]
    by (simp add: HumanMessage_def)
  from generation_failure_advances_step [OF step disjI1 [OF kw] reply demo_parse_mockReply]
  show ?thesis using step kw none by simp
qed

subsection \<open>The decomposition step\<close>

lemma runDecomposition_absent:
  "files w ''tasks.json'' = None \<Longrightarrow>
   runDecomposition env eng w
     = (Inr (decompositionError
               (Error (''ENOENT: no such file or directory, open '' @ [CHR 0x27] @
                       join ''/'' [projectRoot (fs eng), ''tasks.json''] @ [CHR 0x27]))),
        eng\<lparr>isDecomposing := False\<rparr>, w)"
  by (simp add: runDecomposition_def readFile_def)

lemma runDecomposition_empty:
  "files w ''tasks.json'' = Some [] \<Longrightarrow>
   runDecomposition env eng w
     = (Inr ''No tasks.json found. Please complete Step 2 first.'', eng\<lparr>isDecomposing := True\<rparr>, w)"
  by (simp add: runDecomposition_def readFile_def)

lemma isDecomposing_False_id: "\<not> isDecomposing eng \<Longrightarrow> eng\<lparr>isDecomposing := False\<rparr> = eng"
  by (cases eng) simp

lemma handleDecompositionStep_confirmed:
  "confirmsDecomposition userMessage \<Longrightarrow>
   handleDecompositionStep env (pushHistory (HumanMessage userMessage) eng) w
     = (if isDecomposing eng
        then (Inr ''Decomposition is already in progress. Please wait...'',
              pushHistory (HumanMessage userMessage) eng, w)
        else runDecomposition env (pushHistory (HumanMessage userMessage) eng) w)"
  by (auto simp add: handleDecompositionStep_def lastUserMsg_push confirmsDecomposition_def)

lemma processMessage_dispatch:
  "dispatch env (pushHistory (HumanMessage userMessage) eng) w = (Inr response, eng', w')
   \<Longrightarrow> processMessage env userMessage eng w
         = (Inr response, pushHistory (AIMessage response) eng', w')"
  by (simp add: processMessage_def)

text \<open>
  C7. The engine is at DECOMPOSITION, no run is in progress and the user confirms.
  When \<open>tasks.json\<close> does not exist, \<open>readFile\<close> raises; the \<open>catch\<close> block of
  \<open>runDecomposition\<close> answers with the system's error text, not with the instruction
  to complete step 2, clears the flag and changes nothing else. The guard that gives
  the instruction is reached only when the file exists and is empty; it returns
  without clearing the flag, so the flag stays set, the step stays at DECOMPOSITION
  and the next confirmation is rejected as already in progress.
\<close>

theorem decomposition_without_tasks_file:
  assumes step: "currentStep eng = DECOMPOSITION"
    and idle: "\<not> isDecomposing eng"
    and confirm: "confirmsDecomposition userMessage"
  shows "(files w ''tasks.json'' = None \<longrightarrow>
            processMessage env userMessage eng w
              = (Inr (''Error during decomposition: ENOENT: no such file or directory, open ''
                      @ [CHR 0x27] @ join ''/'' [projectRoot (fs eng), ''tasks.json''] @ [CHR 0x27]),
                 pushHistory
                   (AIMessage (''Error during decomposition: ENOENT: no such file or directory, open ''
                      @ [CHR 0x27] @ join ''/'' [projectRoot (fs eng), ''tasks.json''] @ [CHR 0x27]))
                   (pushHistory (HumanMessage userMessage) eng),
                 w)
            \<and> fst (processMessage env userMessage eng w)
                \<noteq> Inr ''No tasks.json found. Please complete Step 2 first.'')
       \<and> (files w ''tasks.json'' = Some [] \<longrightarrow>
            processMessage env userMessage eng w
              = (Inr ''No tasks.json found. Please complete Step 2 first.'',
                 pushHistory (AIMessage ''No tasks.json found. Please complete Step 2 first.'')
                   ((pushHistory (HumanMessage userMessage) eng)\<lparr>isDecomposing := True\<rparr>),
                 w)
            \<and> isDecomposing (fst (snd (processMessage env userMessage eng w)))
            \<and> fst (processMessage env userMessage (fst (snd (processMessage env userMessage eng w))) w)
                = Inr ''Decomposition is already in progress. Please wait...'')"
proof (intro conjI impI)
  let ?eng1 = "pushHistory (HumanMessage userMessage) eng"
  have idle1: "\<not> isDecomposing ?eng1" using idle by simp
  have h: "handleDecompositionStep env ?eng1 w = runDecomposition env ?eng1 w"
    using handleDecompositionStep_confirmed [OF confirm, of env eng w] idle by simp
  have d: "dispatch env ?eng1 w = runDecomposition env ?eng1 w"
    using step h by (simp add: dispatch_def)
  {
    assume absent: "files w ''tasks.json'' = None"
    have "dispatch env ?eng1 w
        = (Inr (''Error during decomposition: ENOENT: no such file or directory, open ''
                      @ [CHR 0x27] @ join ''/'' [projectRoot (fs eng), ''tasks.json''] @ [CHR 0x27]),
           ?eng1, w)"
      using d runDecomposition_absent [OF absent, of env ?eng1] isDecomposing_False_id [OF idle1]
      by (simp add: decompositionError_def)
    from processMessage_dispatch [OF this]
    show "processMessage env userMessage eng w
              = (Inr (''Error during decomposition: ENOENT: no such file or directory, open ''
                      @ [CHR 0x27] @ join ''/'' [projectRoot (fs eng), ''tasks.json''] @ [CHR 0x27]),
                 pushHistory
                   (AIMessage (''Error during decomposition: ENOENT: no such file or directory, open ''
                      @ [CHR 0x27] @ join ''/'' [projectRoot (fs eng), ''tasks.json''] @ [CHR 0x27]))
                   (pushHistory (HumanMessage userMessage) eng),
                 w)" .
    then show "fst (processMessage env userMessage eng w)
                \<noteq> Inr ''No tasks.json found. Please complete Step 2 first.''"
      by simp
  }
  {
    assume empty: "files w ''tasks.json'' = Some []"
    have "dispatch env ?eng1 w
        = (Inr ''No tasks.json found. Please complete Step 2 first.'', ?eng1\<lparr>isDecomposing := True\<rparr>, w)"
      using d runDecomposition_empty [OF empty, of env ?eng1] by simp
    from processMessage_dispatch [OF this]
    show pm: "processMessage env userMessage eng w
              = (Inr ''No tasks.json found. Please complete Step 2 first.'',
                 pushHistory (AIMessage ''No tasks.json found. Please complete Step 2 first.'')
                   ((pushHistory (HumanMessage userMessage) eng)\<lparr>isDecomposing := True\<rparr>),
                 w)" .
    let ?eng2 = "pushHistory (AIMessage ''No tasks.json found. Please complete Step 2 first.'')
                   ((pushHistory (HumanMessage userMessage) eng)\<lparr>isDecomposing := True\<rparr>)"
    show "isDecomposing (fst (snd (processMessage env userMessage eng w)))"
      using pm by simp
    have "dispatch env (pushHistory (HumanMessage userMessage) ?eng2) w
        = (Inr ''Decomposition is already in progress. Please wait...'',
           pushHistory (HumanMessage userMessage) ?eng2, w)"
      using handleDecompositionStep_confirmed [OF confirm, of env ?eng2 w] step
      by (simp add: dispatch_def)
    from processMessage_dispatch [OF this]
    show "fst (processMessage env userMessage (fst (snd (processMessage env userMessage eng w))) w)
                = Inr ''Decomposition is already in progress. Please wait...''"
      using pm by simp
  }
qed

lemma demo_confirms: "confirmsDecomposition ''decompose''"
  by (simp add: confirmsDecomposition_def toLowerCase_def lowerChar_def startsWith_def)

theorem decomposition_without_tasks_file_witness:
  "currentStep (demoEngine DECOMPOSITION) = DECOMPOSITION
   \<and> \<not> isDecomposing (demoEngine DECOMPOSITION)
   \<and> confirmsDecomposition ''decompose''
   \<and> files emptyWorld ''tasks.json'' = None
   \<and> fst (processMessage (demoEnv fencedBackend) ''decompose'' (demoEngine DECOMPOSITION) emptyWorld)
       = Inr (''Error during decomposition: ENOENT: no such file or directory, open ''
              @ [CHR 0x27] @ ''/home/user/todo/tasks.json'' @ [CHR 0x27])
   \<and> files (emptyWorld\<lparr>files := [''tasks.json'' \<mapsto> []]\<rparr>) ''tasks.json'' = Some []
   \<and> isDecomposing (fst (snd (processMessage (demoEnv fencedBackend) ''decompose''
         (demoEngine DECOMPOSITION) (emptyWorld\<lparr>files := [''tasks.json'' \<mapsto> []]\<rparr>))))"
proof -
  have step: "currentStep (demoEngine DECOMPOSITION) = DECOMPOSITION"
    and idle: "\<not> isDecomposing (demoEngine DECOMPOSITION)"
    and root: "projectRoot (fs (demoEngine DECOMPOSITION)) = ''/home/user/todo''"
    by (simp_all add: demoEngine_def WorkflowEngine_new_def AgentFileSystem_new_def)
  have absent: "files emptyWorld ''tasks.json'' = None"
    and empty: "files (emptyWorld\<lparr>files := [''tasks.json'' \<mapsto> []]\<rparr>) ''tasks.json'' = Some []"
    by (simp_all add: emptyWorld_def)
  from decomposition_without_tasks_file [OF step idle demo_confirms,
      of emptyWorld "demoEnv fencedBackend"]
    decomposition_without_tasks_file [OF step idle demo_confirms,
      of "emptyWorld\<lparr>files := [''tasks.json'' \<mapsto> []]\<rparr>" "demoEnv fencedBackend"]
  show ?thesis using step idle demo_confirms absent empty root by simp
qed

subsection \<open>Confirmation and skip\<close>

lemma runDecomposition_reply_not_skip:
  "fst (runDecomposition env eng w) \<noteq> Inr ''Skipping decomposition. Moving to **Step 4: Analysis**.''"
  by (simp add: runDecomposition_def decompositionError_def decompositionReply_def Let_def
      split: sum.splits prod.splits)

text \<open>
  C10. In the DECOMPOSITION step the confirmation keywords are checked before the skip
  keywords: a message that contains a confirmation keyword and a skip keyword is
  handled by the confirmation branch, and the reply is never the one of the skip
  branch. The confirmation branch starts a decomposition run when no run is in
  progress; when the in-progress flag is set, it answers that decomposition is already
  in progress and changes nothing.
\<close>

theorem confirmation_checked_before_skip:
  assumes step: "currentStep eng = DECOMPOSITION"
    and confirm: "confirmsDecomposition userMessage"
    and skip: "asksToSkip userMessage"
  shows "dispatch env (pushHistory (HumanMessage userMessage) eng) w
           = (if isDecomposing eng
              then (Inr ''Decomposition is already in progress. Please wait...'',
                    pushHistory (HumanMessage userMessage) eng, w)
              else runDecomposition env (pushHistory (HumanMessage userMessage) eng) w)
         \<and> fst (processMessage env userMessage eng w)
             \<noteq> Inr ''Skipping decomposition. Moving to **Step 4: Analysis**.''"
proof -
  let ?eng1 = "pushHistory (HumanMessage userMessage) eng"
  have d: "dispatch env ?eng1 w
           = (if isDecomposing eng
              then (Inr ''Decomposition is already in progress. Please wait...'', ?eng1, w)
              else runDecomposition env ?eng1 w)"
    using step handleDecompositionStep_confirmed [OF confirm, of env eng w]
    by (simp add: dispatch_def)
  have "fst (dispatch env ?eng1 w) \<noteq> Inr ''Skipping decomposition. Moving to **Step 4: Analysis**.''"
    using d runDecomposition_reply_not_skip [of env ?eng1 w] by (simp split: if_splits)
  then have "fst (processMessage env userMessage eng w)
             \<noteq> Inr ''Skipping decomposition. Moving to **Step 4: Analysis**.''"
    by (auto simp add: processMessage_def split: prod.splits sum.splits)
  with d show ?thesis by simp
qed

lemma demo_both_keywords:
  "confirmsDecomposition ''Yes, skip to the next step''"
  "asksToSkip ''Yes, skip to the next step''"
  by (simp_all add: confirmsDecomposition_def asksToSkip_def toLowerCase_def lowerChar_def
      startsWith_def)

subsection \<open>A run with one sub-task\<close>

lemma demo_clean_fenced:
  "cleanJson (accumulate [''```json\<newline>'', demoSubTasksJson, ''\<newline>```'']) = demoSubTasksJson"
  by (simp add: cleanJson_def accumulate_def trim_def startsWith_def isSpace_def demoSubTasksJson_def)

lemma demo_find: "findTasksToDecompose [] demoRoot [] = [[0]]"
  by (simp add: demoRoot_def demoTask_def)

lemma demo_chat_fenced:
  "chat fencedBackend demoService msgs w
     = (Inr (accumulate [''```json\<newline>'', demoSubTasksJson, ''\<newline>```'']),
        w\<lparr>calls := Suc (calls w), clock := clock w + 900\<rparr>)"
  by (simp add: chat_def chatAttempt_def demoService_def configure_def fencedBackend_def)

lemma demo_decomposeTask_fenced:
  "llm eng = demoService \<Longrightarrow>
   decomposeTask (demoEnv fencedBackend) eng task projectName w
     = (Inr demoSubTasks, w\<lparr>calls := Suc (calls w), clock := clock w + 900\<rparr>)"
  by (simp add: decomposeTask_def demoEnv_def demo_chat_fenced demo_clean_fenced demoParseNodes_def)

lemma demo_round_fenced:
  "llm eng = demoService \<Longrightarrow>
   decomposeRound (demoEnv fencedBackend) eng 0 [0] (demoRoot, 0, [], demoWorld)
     = (demoDecomposed, 1, [successLine demoTask demoSubTasks], demoWorld\<lparr>calls := 1, clock := 900\<rparr>)"
  by (simp add: decomposeRound_def demo_decomposeTask_fenced demoRoot_def demoTask_def
      attachSubTasks_def demoSubTasks_def demoWorld_def emptyWorld_def demoDecomposed_def)

lemma demo_read: "readFile afs ''tasks.json'' demoWorld = Inr demoTasksJson"
  by (simp add: readFile_def demoWorld_def emptyWorld_def)

lemma demo_parse_root: "JSON_parse_node (demoEnv bk) demoTasksJson = Inr demoRoot"
  by (simp add: demoEnv_def demoParseNode_def)

lemma demoTasksJson_nonempty: "demoTasksJson \<noteq> []"
  by (simp add: demoTasksJson_def)

lemma basename_tasks: "basename ''tasks.json'' = ''tasks.json''"
  by (simp add: basename_def)

lemma demo_run_fenced:
  "llm eng = demoService \<Longrightarrow>
   runDecomposition (demoEnv fencedBackend) eng demoWorld
     = (Inr (decompositionReply [successLine demoTask demoSubTasks] 1),
        eng\<lparr>isDecomposing := False, currentStep := ANALYSIS\<rparr>,
        demoWorld\<lparr>calls := 1, clock := 900,
                   backups := [(''tasks.json'', demoTasksJson)],
                   files := [''tasks.json'' \<mapsto> demoStringify demoDecomposed]\<rparr>)"
  by (simp add: runDecomposition_def demo_read demo_parse_root demoTasksJson_nonempty demo_find
      demo_round_fenced writeSafe_def)
     (simp add: demoWorld_def emptyWorld_def demoEnv_def basename_tasks)


theorem confirmation_checked_before_skip_witness:
  "currentStep (demoEngine DECOMPOSITION) = DECOMPOSITION
   \<and> confirmsDecomposition ''Yes, skip to the next step''
   \<and> asksToSkip ''Yes, skip to the next step''
   \<and> \<not> isDecomposing (demoEngine DECOMPOSITION)
   \<and> dispatch (demoEnv fencedBackend)
         (pushHistory (HumanMessage ''Yes, skip to the next step'') (demoEngine DECOMPOSITION)) demoWorld
       = runDecomposition (demoEnv fencedBackend)
           (pushHistory (HumanMessage ''Yes, skip to the next step'') (demoEngine DECOMPOSITION)) demoWorld
   \<and> fst (processMessage (demoEnv fencedBackend) ''Yes, skip to the next step''
            (demoEngine DECOMPOSITION) demoWorld)
       \<noteq> Inr ''Skipping decomposition. Moving to **Step 4: Analysis**.''"
proof -
  have step: "currentStep (demoEngine DECOMPOSITION) = DECOMPOSITION"
    and idle: "\<not> isDecomposing (demoEngine DECOMPOSITION)"
    by (simp_all add: demoEngine_def WorkflowEngine_new_def)
  from confirmation_checked_before_skip [OF step demo_both_keywords,
      of "demoEnv fencedBackend" demoWorld]
  show ?thesis using step idle demo_both_keywords by simp
qed

text \<open>
  With the in-progress flag set, such a message starts no run: the engine answers
  that decomposition is already in progress, sends no request and writes no file.
\<close>

theorem confirmation_while_decomposing_counterexample:
  "currentStep ((demoEngine DECOMPOSITION)\<lparr>isDecomposing := True\<rparr>) = DECOMPOSITION
   \<and> confirmsDecomposition ''Yes, skip to the next step''
   \<and> asksToSkip ''Yes, skip to the next step''
   \<and> dispatch (demoEnv fencedBackend)
         (pushHistory (HumanMessage ''Yes, skip to the next step'')
            ((demoEngine DECOMPOSITION)\<lparr>isDecomposing := True\<rparr>)) demoWorld
       \<noteq> runDecomposition (demoEnv fencedBackend)
           (pushHistory (HumanMessage ''Yes, skip to the next step'')
              ((demoEngine DECOMPOSITION)\<lparr>isDecomposing := True\<rparr>)) demoWorld
   \<and> processMessage (demoEnv fencedBackend) ''Yes, skip to the next step''
         ((demoEngine DECOMPOSITION)\<lparr>isDecomposing := True\<rparr>) demoWorld
       = (Inr ''Decomposition is already in progress. Please wait...'',
          pushHistory (AIMessage ''Decomposition is already in progress. Please wait...'')
            (pushHistory (HumanMessage ''Yes, skip to the next step'')
               ((demoEngine DECOMPOSITION)\<lparr>isDecomposing := True\<rparr>)),
          demoWorld)"
proof -
  let ?busy = "(demoEngine DECOMPOSITION)\<lparr>isDecomposing := True\<rparr>"
  let ?eng1 = "pushHistory (HumanMessage ''Yes, skip to the next step'') ?busy"
  have step: "currentStep ?busy = DECOMPOSITION"
    by (simp add: demoEngine_def WorkflowEngine_new_def)
  have svc: "llm ?eng1 = demoService"
    by (simp add: demoEngine_def WorkflowEngine_new_def)
  have d: "dispatch (demoEnv fencedBackend) ?eng1 demoWorld
        = (Inr ''Decomposition is already in progress. Please wait...'', ?eng1, demoWorld)"
    using step handleDecompositionStep_confirmed [OF demo_both_keywords(1),
        of "demoEnv fencedBackend" ?busy demoWorld]
    by (simp add: dispatch_def)
  have "calls (snd (snd (dispatch (demoEnv fencedBackend) ?eng1 demoWorld))) = 0"
    using d by (simp add: demoWorld_def emptyWorld_def)
  moreover have "calls (snd (snd (runDecomposition (demoEnv fencedBackend) ?eng1 demoWorld))) = 1"
    using demo_run_fenced [OF svc] by simp
  ultimately have ne: "dispatch (demoEnv fencedBackend) ?eng1 demoWorld
       \<noteq> runDecomposition (demoEnv fencedBackend) ?eng1 demoWorld"
    by (metis zero_neq_one)
  show ?thesis
    using step demo_both_keywords ne processMessage_dispatch [OF d] by simp
qed

subsection \<open>A run with an empty answer\<close>

lemma demo_clean_empty: "cleanJson (accumulate [''[]'']) = ''[]''"
  by (simp add: cleanJson_def accumulate_def trim_def startsWith_def isSpace_def)

lemma demo_chat_empty:
  "chat emptyArrayBackend demoService msgs w
     = (Inr (accumulate [''[]'']), w\<lparr>calls := Suc (calls w), clock := clock w + 400\<rparr>)"
  by (simp add: chat_def chatAttempt_def demoService_def configure_def emptyArrayBackend_def)

lemma demo_decomposeTask_empty:
  "llm eng = demoService \<Longrightarrow>
   decomposeTask (demoEnv emptyArrayBackend) eng task projectName w
     = (Inr [], w\<lparr>calls := Suc (calls w), clock := clock w + 400\<rparr>)"
  by (simp add: decomposeTask_def demoEnv_def demo_chat_empty demo_clean_empty demoParseNodes_def
      demoSubTasksJson_def)

lemma demo_round_empty:
  "llm eng = demoService \<Longrightarrow>
   decomposeRound (demoEnv emptyArrayBackend) eng 0 [0] (demoRoot, 0, [], demoWorld)
     = (demoRoot, 0, [], demoWorld\<lparr>calls := 1, clock := 400\<rparr>)"
  by (simp add: decomposeRound_def demo_decomposeTask_empty demoRoot_def demoWorld_def
      emptyWorld_def)

lemma demo_run_empty:
  "llm eng = demoService \<Longrightarrow>
   runDecomposition (demoEnv emptyArrayBackend) eng demoWorld
     = (Inr (decompositionReply [] 0),
        eng\<lparr>isDecomposing := False, currentStep := ANALYSIS\<rparr>,
        demoWorld\<lparr>calls := 1, clock := 400,
                   backups := [(''tasks.json'', demoTasksJson)],
                   files := [''tasks.json'' \<mapsto> demoStringify demoRoot]\<rparr>)"
  by (simp add: runDecomposition_def demo_read demo_parse_root demoTasksJson_nonempty demo_find
      demo_round_empty writeSafe_def)
     (simp add: demoWorld_def emptyWorld_def demoEnv_def basename_tasks)


subsection \<open>The decomposition loop\<close>

lemma node_at_modify_at:
  "node_at root ref = Some task \<Longrightarrow> node_at (modify_at f root ref) ref = Some (f task)"
proof (induction ref arbitrary: root)
  case Nil
  then show ?case by simp
next
  case (Cons k ref)
  then show ?case by (auto split: option.splits if_splits)
qed

lemma decomposeLoop_append:
  "decomposeLoop env eng i (xs @ ys) st
     = decomposeLoop env eng (i + length xs) ys (decomposeLoop env eng i xs st)"
  by (induction xs arbitrary: i st) simp_all

lemma node_at_modify_at_other:
  "\<not> prefix r p \<Longrightarrow> \<not> prefix p r \<Longrightarrow> node_at (modify_at f root r) p = node_at root p"
proof (induction r arbitrary: p root)
  case Nil
  then show ?case by simp
next
  case (Cons k r)
  then obtain k' p' where p: "p = k' # p'" by (cases p) auto
  show ?case
  proof (cases "k = k'")
    case True
    with Cons.prems p have "\<not> prefix r p'" "\<not> prefix p' r" by simp_all
    from Cons.IH [OF this] True p show ?thesis
      by (auto split: option.splits)
  next
    case False
    with p show ?thesis by (auto split: option.splits)
  qed
qed

lemma title_modify_at_attach: "title (modify_at (attachSubTasks subs) root r) = title root"
  by (cases r) (auto simp: attachSubTasks_def split: option.splits)

lemma decomposeRound_tree:
  "fst (decomposeRound env eng i r st) = fst st
   \<or> (\<exists>subs. fst (decomposeRound env eng i r st) = modify_at (attachSubTasks subs) (fst st) r)"
  by (cases st) (auto simp: decomposeRound_def Let_def split: option.splits prod.splits sum.splits)

lemma decomposeRound_frame:
  "\<not> prefix r p \<Longrightarrow> \<not> prefix p r \<Longrightarrow>
   node_at (fst (decomposeRound env eng i r st)) p = node_at (fst st) p"
  using decomposeRound_tree [of env eng i r st] by (auto simp: node_at_modify_at_other)

lemma decomposeRound_title: "title (fst (decomposeRound env eng i r st)) = title (fst st)"
  using decomposeRound_tree [of env eng i r st] by (auto simp: title_modify_at_attach)

lemma decomposeLoop_frame:
  "\<forall>r \<in> set rs. \<not> prefix r p \<and> \<not> prefix p r \<Longrightarrow>
   node_at (fst (decomposeLoop env eng i rs st)) p = node_at (fst st) p"
  by (induction rs arbitrary: i st) (simp_all add: decomposeRound_frame)

lemma decomposeLoop_title: "title (fst (decomposeLoop env eng i rs st)) = title (fst st)"
  by (induction rs arbitrary: i st) (simp_all add: decomposeRound_title)

lemma node_at_append:
  "node_at root (r @ p) = (case node_at root r of None \<Rightarrow> None | Some n \<Rightarrow> node_at n p)"
  by (induction r arbitrary: root) (auto split: option.splits)

lemma eligible_is_leaf:
  assumes "node_at root r = Some task" "eligible task" "node_at root (r @ p) = Some x"
  shows "p = []"
proof (cases p)
  case Nil
  then show ?thesis .
next
  case (Cons k p')
  with assms show ?thesis
    by (auto simp: node_at_append eligible_def split: option.splits)
qed

lemma findTasksToDecompose_refs:
  assumes "r \<in> set (findTasksToDecompose [] root [])"
  shows "\<exists>task. node_at root r = Some task \<and> eligible task"
proof -
  from assms obtain m where "(r, m) \<in> set (preorderRefs [] root)" "eligible m"
    by (auto simp: find_as_filter)
  then show ?thesis using preorderRefs_root_valid by blast
qed

lemma findTasksToDecompose_incomparable:
  assumes "r \<in> set (findTasksToDecompose [] root [])" "p \<in> set (findTasksToDecompose [] root [])"
    and "r \<noteq> p"
  shows "\<not> prefix r p"
proof
  assume "prefix r p"
  then obtain q where q: "p = r @ q" by (auto simp: prefix_def)
  from findTasksToDecompose_refs [OF assms(1)] obtain task where
    t: "node_at root r = Some task" "eligible task" by blast
  from findTasksToDecompose_refs [OF assms(2)] obtain x where "node_at root p = Some x" by blast
  with q have "node_at root (r @ q) = Some x" by simp
  from eligible_is_leaf [OF t this] q assms(3) show False by simp
qed


lemma runDecomposition_persists:
  assumes "files w ''tasks.json'' = Some tasksJson" "tasksJson \<noteq> []"
    and "JSON_parse_node env tasksJson = Inr rootTask"
    and "findTasksToDecompose [] rootTask [] \<noteq> []"
    and "decomposeLoop env (eng\<lparr>isDecomposing := True\<rparr>) 0 (findTasksToDecompose [] rootTask [])
           (rootTask, 0, [], w) = (rootTask1, decomposedCount, results, w1)"
  shows "runDecomposition env eng w
           = (Inr (decompositionReply results decomposedCount),
              eng\<lparr>isDecomposing := False, currentStep := ANALYSIS\<rparr>,
              snd (writeSafe (fs eng) ''tasks.json'' (JSON_stringify env rootTask1) w1))"
    and "files (snd (snd (runDecomposition env eng w))) ''tasks.json''
           = Some (JSON_stringify env rootTask1)"
proof -
  show a: "runDecomposition env eng w
           = (Inr (decompositionReply results decomposedCount),
              eng\<lparr>isDecomposing := False, currentStep := ANALYSIS\<rparr>,
              snd (writeSafe (fs eng) ''tasks.json'' (JSON_stringify env rootTask1) w1))"
    using assms by (simp add: runDecomposition_def readFile_def Let_def split: prod.splits)
  show "files (snd (snd (runDecomposition env eng w))) ''tasks.json''
           = Some (JSON_stringify env rootTask1)"
    unfolding a by (simp add: writeSafe_def Let_def split: option.splits)
qed

lemma run_node_after_round:
  assumes stored: "files w ''tasks.json'' = Some tasksJson" "tasksJson \<noteq> []"
    and parse: "JSON_parse_node env tasksJson = Inr rootTask"
    and k: "k < length (findTasksToDecompose [] rootTask [])"
    and before: "decomposeLoop env (eng\<lparr>isDecomposing := True\<rparr>) 0
                   (take k (findTasksToDecompose [] rootTask [])) (rootTask, 0, [], w)
                 = (rootK, countK, resultsK, wK)"
  shows "\<exists>persisted.
           files (snd (snd (runDecomposition env eng w))) ''tasks.json''
             = Some (JSON_stringify env persisted)
           \<and> node_at persisted (findTasksToDecompose [] rootTask [] ! k)
               = node_at (fst (decomposeRound env (eng\<lparr>isDecomposing := True\<rparr>) k
                                 (findTasksToDecompose [] rootTask [] ! k)
                                 (rootK, countK, resultsK, wK)))
                   (findTasksToDecompose [] rootTask [] ! k)"
    and "node_at rootK (findTasksToDecompose [] rootTask [] ! k)
           = node_at rootTask (findTasksToDecompose [] rootTask [] ! k)"
    and "title rootK = title rootTask"
proof -
  let ?refs = "findTasksToDecompose [] rootTask []"
  let ?eng = "eng\<lparr>isDecomposing := True\<rparr>"
  let ?r = "?refs ! k"
  let ?st = "(rootTask, 0::nat, []::string list, w)"
  let ?stK1 = "decomposeRound env ?eng k ?r (rootK, countK, resultsK, wK)"
  have split: "?refs = take k ?refs @ ?r # drop (Suc k) ?refs"
    using k by (simp add: id_take_nth_drop)
  have mem: "?r \<in> set ?refs" using k by simp
  have other: "\<not> prefix r ?r \<and> \<not> prefix ?r r"
    if "r \<in> set (take k ?refs) \<or> r \<in> set (drop (Suc k) ?refs)" for r
  proof -
    have d: "distinct (take k ?refs @ ?r # drop (Suc k) ?refs)"
      using findTasksToDecompose_distinct [of rootTask] split by simp
    from that have ne: "r \<noteq> ?r" using d by auto
    from that have "r \<in> set ?refs" by (auto dest: in_set_takeD in_set_dropD)
    from findTasksToDecompose_incomparable [OF this mem ne]
      findTasksToDecompose_incomparable [OF mem this] ne
    show ?thesis by auto
  qed
  show "node_at rootK ?r = node_at rootTask ?r"
    using decomposeLoop_frame [of "take k ?refs" ?r env ?eng 0 ?st] other before by simp
  show "title rootK = title rootTask"
    using decomposeLoop_title [of env ?eng 0 "take k ?refs" ?st] before by simp
  have loop: "decomposeLoop env ?eng 0 ?refs ?st
      = decomposeLoop env ?eng (Suc k) (drop (Suc k) ?refs) ?stK1"
  proof -
    have "decomposeLoop env ?eng 0 (take k ?refs @ ?r # drop (Suc k) ?refs) ?st
        = decomposeLoop env ?eng (0 + length (take k ?refs)) (?r # drop (Suc k) ?refs)
            (decomposeLoop env ?eng 0 (take k ?refs) ?st)"
      by (rule decomposeLoop_append)
    then show ?thesis
      using split before k by (simp add: min_def)
  qed
  obtain persisted n results w2 where final:
    "decomposeLoop env ?eng 0 ?refs ?st = (persisted, n, results, w2)"
    by (cases "decomposeLoop env ?eng 0 ?refs ?st") auto
  have rest: "decomposeLoop env ?eng (Suc k) (drop (Suc k) ?refs) ?stK1 = (persisted, n, results, w2)"
    using loop final by simp
  have "node_at (fst (decomposeLoop env ?eng (Suc k) (drop (Suc k) ?refs) ?stK1)) ?r
          = node_at (fst ?stK1) ?r"
    by (rule decomposeLoop_frame) (use other in blast)
  then have node: "node_at persisted ?r = node_at (fst ?stK1) ?r"
    unfolding rest by simp
  have nonnil: "?refs \<noteq> []" using k by auto
  have "files (snd (snd (runDecomposition env eng w))) ''tasks.json''
          = Some (JSON_stringify env persisted)"
    by (rule runDecomposition_persists(2) [OF stored parse nonnil final])
  with node show "\<exists>persisted.
           files (snd (snd (runDecomposition env eng w))) ''tasks.json''
             = Some (JSON_stringify env persisted)
           \<and> node_at persisted ?r = node_at (fst ?stK1) ?r"
    by blast
qed

lemma decomposeRound_results:
  "\<exists>more. fst (snd (snd (decomposeRound env eng i r st))) = fst (snd (snd st)) @ more"
  by (cases st) (auto simp: decomposeRound_def Let_def split: option.splits prod.splits sum.splits)

lemma decomposeLoop_results:
  "\<exists>more. fst (snd (snd (decomposeLoop env eng i rs st))) = fst (snd (snd st)) @ more"
proof (induction rs arbitrary: i st)
  case Nil
  show ?case by simp
next
  case (Cons r rs)
  from Cons.IH [of "Suc i" "decomposeRound env eng i r st"] obtain more where
    "fst (snd (snd (decomposeLoop env eng (Suc i) rs (decomposeRound env eng i r st))))
       = fst (snd (snd (decomposeRound env eng i r st))) @ more" by blast
  moreover obtain more' where
    "fst (snd (snd (decomposeRound env eng i r st))) = fst (snd (snd st)) @ more'"
    using decomposeRound_results by blast
  ultimately show ?case by simp
qed

lemma run_reports_failure:
  assumes stored: "files w ''tasks.json'' = Some tasksJson" "tasksJson \<noteq> []"
    and parse: "JSON_parse_node env tasksJson = Inr rootTask"
    and k: "k < length (findTasksToDecompose [] rootTask [])"
    and before: "decomposeLoop env (eng\<lparr>isDecomposing := True\<rparr>) 0
                   (take k (findTasksToDecompose [] rootTask [])) (rootTask, 0, [], w)
                 = (rootK, countK, resultsK, wK)"
    and task: "node_at rootTask (findTasksToDecompose [] rootTask [] ! k) = Some task"
    and call: "decomposeTask env (eng\<lparr>isDecomposing := True\<rparr>) task (title rootTask)
                 (if 0 < k then sleep 1500 wK else wK)
               = (Inl e, w1)"
  shows "decomposeRound env (eng\<lparr>isDecomposing := True\<rparr>) k
               (findTasksToDecompose [] rootTask [] ! k) (rootK, countK, resultsK, wK)
             = (rootK, countK, resultsK @ [failureLine task e], w1)
         \<and> (\<exists>persisted.
               files (snd (snd (runDecomposition env eng w))) ''tasks.json''
                 = Some (JSON_stringify env persisted)
               \<and> node_at persisted (findTasksToDecompose [] rootTask [] ! k) = Some task)"
proof -
  let ?r = "findTasksToDecompose [] rootTask [] ! k"
  note after = run_node_after_round [OF stored parse k before]
  have rootK: "node_at rootK ?r = Some task" "title rootK = title rootTask"
    using after(2,3) task by simp_all
  have round: "decomposeRound env (eng\<lparr>isDecomposing := True\<rparr>) k ?r (rootK, countK, resultsK, wK)
      = (rootK, countK, resultsK @ [failureLine task e], w1)"
    using rootK call by (simp add: decomposeRound_def)
  show ?thesis
    using round after(1) rootK(1) by (auto simp: round)
qed

text \<open>
  C8. In a decomposition run, when the request for the \<open>k\<close>-th eligible task succeeds
  and its output parses to a non-empty array, the sub-task list attached as that task's
  children in the persisted tree is the array as parsed, so it has at least one
  element, and \<open>decomposed\<close> is set. Nothing bounds its length otherwise: the range of
  2 to 5 is asked for in the prompt and not checked.
\<close>

theorem run_attaches_parsed_list:
  assumes stored: "files w ''tasks.json'' = Some tasksJson" "tasksJson \<noteq> []"
    and parse: "JSON_parse_node env tasksJson = Inr rootTask"
    and k: "k < length (findTasksToDecompose [] rootTask [])"
    and before: "decomposeLoop env (eng\<lparr>isDecomposing := True\<rparr>) 0
                   (take k (findTasksToDecompose [] rootTask [])) (rootTask, 0, [], w)
                 = (rootK, countK, resultsK, wK)"
    and task: "node_at rootTask (findTasksToDecompose [] rootTask [] ! k) = Some task"
    and call: "decomposeTask env (eng\<lparr>isDecomposing := True\<rparr>) task (title rootTask)
                 (if 0 < k then sleep 1500 wK else wK)
               = (Inr subTasks, w1)"
    and nonempty: "subTasks \<noteq> []"
  shows "\<exists>persisted.
           files (snd (snd (runDecomposition env eng w))) ''tasks.json''
             = Some (JSON_stringify env persisted)
           \<and> node_at persisted (findTasksToDecompose [] rootTask [] ! k)
               = Some (attachSubTasks subTasks task)
           \<and> children (attachSubTasks subTasks task) = Some subTasks
           \<and> decomposed (attachSubTasks subTasks task) = Some True
           \<and> 1 \<le> length subTasks"
proof -
  let ?r = "findTasksToDecompose [] rootTask [] ! k"
  note after = run_node_after_round [OF stored parse k before]
  have rootK: "node_at rootK ?r = Some task" "title rootK = title rootTask"
    using after(2,3) task by simp_all
  have "fst (decomposeRound env (eng\<lparr>isDecomposing := True\<rparr>) k ?r (rootK, countK, resultsK, wK))
      = modify_at (attachSubTasks subTasks) rootK ?r"
    using rootK call nonempty by (simp add: decomposeRound_def)
  moreover have "1 \<le> length subTasks"
    using nonempty by (cases subTasks) simp_all
  ultimately show ?thesis
    using after(1) node_at_modify_at [OF rootK(1)] by (auto simp: attachSubTasks_def)
qed

theorem run_attaches_parsed_list_witness:
  "files demoWorld ''tasks.json'' = Some demoTasksJson
   \<and> JSON_parse_node (demoEnv fencedBackend) demoTasksJson = Inr demoRoot
   \<and> findTasksToDecompose [] demoRoot [] = [[0]]
   \<and> node_at demoRoot [0] = Some demoTask
   \<and> decomposeTask (demoEnv fencedBackend) ((demoEngine DECOMPOSITION)\<lparr>isDecomposing := True\<rparr>)
        demoTask (title demoRoot) demoWorld
       = (Inr demoSubTasks, demoWorld\<lparr>calls := 1, clock := 900\<rparr>)
   \<and> demoSubTasks \<noteq> []
   \<and> (\<exists>persisted.
         files (snd (snd (runDecomposition (demoEnv fencedBackend) (demoEngine DECOMPOSITION) demoWorld)))
           ''tasks.json'' = Some (JSON_stringify (demoEnv fencedBackend) persisted)
         \<and> node_at persisted [0] = Some (attachSubTasks demoSubTasks demoTask))"
proof -
  let ?eng = "(demoEngine DECOMPOSITION)\<lparr>isDecomposing := True\<rparr>"
  have svc: "llm ?eng = demoService"
    by (simp add: demoEngine_def WorkflowEngine_new_def)
  have stored: "files demoWorld ''tasks.json'' = Some demoTasksJson"
    by (simp add: demoWorld_def emptyWorld_def)
  have k: "0 < length (findTasksToDecompose [] demoRoot [])"
    by (simp add: demo_find)
  have before: "decomposeLoop (demoEnv fencedBackend) ?eng 0
                   (take 0 (findTasksToDecompose [] demoRoot [])) (demoRoot, 0, [], demoWorld)
                 = (demoRoot, 0, [], demoWorld)"
    by simp
  have task: "node_at demoRoot (findTasksToDecompose [] demoRoot [] ! 0) = Some demoTask"
    unfolding demo_find by (simp add: demoRoot_def)
  have call: "decomposeTask (demoEnv fencedBackend) ?eng demoTask (title demoRoot)
                (if 0 < (0::nat) then sleep 1500 demoWorld else demoWorld)
              = (Inr demoSubTasks, demoWorld\<lparr>calls := 1, clock := 900\<rparr>)"
    using demo_decomposeTask_fenced [OF svc, of demoTask "title demoRoot" demoWorld]
    by (simp add: demoWorld_def emptyWorld_def)
  have nonempty: "demoSubTasks \<noteq> []"
    by (simp add: demoSubTasks_def)
  from run_attaches_parsed_list [OF stored demoTasksJson_nonempty demo_parse_root k before task call
      nonempty]
  obtain persisted where
    "files (snd (snd (runDecomposition (demoEnv fencedBackend) (demoEngine DECOMPOSITION) demoWorld)))
       ''tasks.json'' = Some (JSON_stringify (demoEnv fencedBackend) persisted)"
    "node_at persisted (findTasksToDecompose [] demoRoot [] ! 0)
       = Some (attachSubTasks demoSubTasks demoTask)"
    by blast
  then have "\<exists>persisted.
         files (snd (snd (runDecomposition (demoEnv fencedBackend) (demoEngine DECOMPOSITION) demoWorld)))
           ''tasks.json'' = Some (JSON_stringify (demoEnv fencedBackend) persisted)
         \<and> node_at persisted [0] = Some (attachSubTasks demoSubTasks demoTask)"
    unfolding demo_find by auto
  moreover have "node_at demoRoot [0] = Some demoTask"
    using task unfolding demo_find by simp
  moreover have "decomposeTask (demoEnv fencedBackend) ?eng demoTask (title demoRoot) demoWorld
              = (Inr demoSubTasks, demoWorld\<lparr>calls := 1, clock := 900\<rparr>)"
    using call by simp
  ultimately show ?thesis
    using stored demo_parse_root [of fencedBackend] demo_find nonempty by blast
qed


text \<open>
  A request that succeeds with a well-formed array of one sub-task: the one sub-task is
  attached and persisted, and 1 is not between 2 and 5.
\<close>

theorem one_sub_task_counterexample:
  "node_at demoRoot [0] = Some demoTask
   \<and> eligible demoTask
   \<and> decomposeTask (demoEnv fencedBackend) (demoEngine DECOMPOSITION) demoTask (title demoRoot) demoWorld
       = (Inr demoSubTasks, demoWorld\<lparr>calls := 1, clock := 900\<rparr>)
   \<and> files (snd (snd (processMessage (demoEnv fencedBackend) ''decompose''
                         (demoEngine DECOMPOSITION) demoWorld))) ''tasks.json''
       = Some (demoStringify demoDecomposed)
   \<and> node_at demoDecomposed [0]
       = Some (TaskNode ''1'' ''Backend'' pending main_task (Some demoSubTasks) (Some True))
   \<and> \<not> (2 \<le> length demoSubTasks \<and> length demoSubTasks \<le> 5)"
proof -
  let ?eng1 = "pushHistory (HumanMessage ''decompose'') (demoEngine DECOMPOSITION)"
  have svc: "llm (demoEngine DECOMPOSITION) = demoService" "llm ?eng1 = demoService"
    by (simp_all add: demoEngine_def WorkflowEngine_new_def)
  have step: "currentStep (demoEngine DECOMPOSITION) = DECOMPOSITION"
    and idle: "\<not> isDecomposing (demoEngine DECOMPOSITION)"
    by (simp_all add: demoEngine_def WorkflowEngine_new_def)
  have task: "node_at demoRoot [0] = Some demoTask"
    by (simp add: demoRoot_def)
  have el: "eligible demoTask"
    by (simp add: eligible_def demoTask_def)
  have call: "decomposeTask (demoEnv fencedBackend) (demoEngine DECOMPOSITION) demoTask (title demoRoot)
                demoWorld
              = (Inr demoSubTasks, demoWorld\<lparr>calls := 1, clock := 900\<rparr>)"
    using demo_decomposeTask_fenced [OF svc(1), of demoTask "title demoRoot" demoWorld]
    by (simp add: demoWorld_def emptyWorld_def)
  have "dispatch (demoEnv fencedBackend) ?eng1 demoWorld
      = runDecomposition (demoEnv fencedBackend) ?eng1 demoWorld"
    using step idle handleDecompositionStep_confirmed [OF demo_confirms,
        of "demoEnv fencedBackend" "demoEngine DECOMPOSITION" demoWorld]
    by (simp add: dispatch_def)
  from processMessage_dispatch [OF this [unfolded demo_run_fenced [OF svc(2)]]]
  have persisted: "files (snd (snd (processMessage (demoEnv fencedBackend) ''decompose''
                         (demoEngine DECOMPOSITION) demoWorld))) ''tasks.json''
       = Some (demoStringify demoDecomposed)"
    by simp
  have dec: "node_at demoDecomposed [0]
       = Some (TaskNode ''1'' ''Backend'' pending main_task (Some demoSubTasks) (Some True))"
    by (simp add: demoDecomposed_def)
  have len: "\<not> (2 \<le> length demoSubTasks \<and> length demoSubTasks \<le> 5)"
    by (simp add: demoSubTasks_def)
  show ?thesis using task el call persisted dec len by simp
qed

text \<open>
  C2. After a decomposition run, a task whose request succeeded with a non-empty array
  is decomposed, and a task whose request or parse failed has a failure line and is
  left as it was (\<open>run_reports_failure\<close>). A task
  whose request succeeds with the empty array is the case the loop misses: its round
  attaches nothing and records no line, and the task is still eligible in the
  persisted tree.
\<close>

theorem run_drops_empty_answer:
  assumes stored: "files w ''tasks.json'' = Some tasksJson" "tasksJson \<noteq> []"
    and parse: "JSON_parse_node env tasksJson = Inr rootTask"
    and k: "k < length (findTasksToDecompose [] rootTask [])"
    and before: "decomposeLoop env (eng\<lparr>isDecomposing := True\<rparr>) 0
                   (take k (findTasksToDecompose [] rootTask [])) (rootTask, 0, [], w)
                 = (rootK, countK, resultsK, wK)"
    and task: "node_at rootTask (findTasksToDecompose [] rootTask [] ! k) = Some task"
    and call: "decomposeTask env (eng\<lparr>isDecomposing := True\<rparr>) task (title rootTask)
                 (if 0 < k then sleep 1500 wK else wK)
               = (Inr [], w1)"
  shows "eligible task
         \<and> decomposeRound env (eng\<lparr>isDecomposing := True\<rparr>) k
               (findTasksToDecompose [] rootTask [] ! k) (rootK, countK, resultsK, wK)
             = (rootK, countK, resultsK, w1)
         \<and> (\<exists>persisted.
               files (snd (snd (runDecomposition env eng w))) ''tasks.json''
                 = Some (JSON_stringify env persisted)
               \<and> node_at persisted (findTasksToDecompose [] rootTask [] ! k) = Some task)"
proof -
  let ?r = "findTasksToDecompose [] rootTask [] ! k"
  note after = run_node_after_round [OF stored parse k before]
  have rootK: "node_at rootK ?r = Some task" "title rootK = title rootTask"
    using after(2,3) task by simp_all
  have round: "decomposeRound env (eng\<lparr>isDecomposing := True\<rparr>) k ?r (rootK, countK, resultsK, wK)
      = (rootK, countK, resultsK, w1)"
    using rootK call by (simp add: decomposeRound_def)
  have "?r \<in> set (findTasksToDecompose [] rootTask [])" using k by simp
  from findTasksToDecompose_refs [OF this] task have el: "eligible task" by auto
  show ?thesis
    using el round after(1) rootK(1) by (auto simp: round)
qed


theorem run_drops_empty_answer_witness:
  "files demoWorld ''tasks.json'' = Some demoTasksJson
   \<and> JSON_parse_node (demoEnv emptyArrayBackend) demoTasksJson = Inr demoRoot
   \<and> findTasksToDecompose [] demoRoot [] = [[0]]
   \<and> node_at demoRoot [0] = Some demoTask
   \<and> decomposeTask (demoEnv emptyArrayBackend) ((demoEngine DECOMPOSITION)\<lparr>isDecomposing := True\<rparr>)
        demoTask (title demoRoot) demoWorld
       = (Inr [], demoWorld\<lparr>calls := 1, clock := 400\<rparr>)
   \<and> eligible demoTask
   \<and> (\<exists>persisted.
         files (snd (snd (runDecomposition (demoEnv emptyArrayBackend) (demoEngine DECOMPOSITION)
                            demoWorld))) ''tasks.json''
           = Some (JSON_stringify (demoEnv emptyArrayBackend) persisted)
         \<and> node_at persisted [0] = Some demoTask)
   \<and> processMessage (demoEnv emptyArrayBackend) ''decompose'' (demoEngine DECOMPOSITION) demoWorld
       = (Inr (decompositionReply [] 0),
          pushHistory (AIMessage (decompositionReply [] 0))
            ((pushHistory (HumanMessage ''decompose'') (demoEngine DECOMPOSITION))
               \<lparr>isDecomposing := False, currentStep := ANALYSIS\<rparr>),
          demoWorld\<lparr>calls := 1, clock := 400,
                     backups := [(''tasks.json'', demoTasksJson)],
                     files := [''tasks.json'' \<mapsto> demoStringify demoRoot]\<rparr>)"
proof -
  let ?eng = "(demoEngine DECOMPOSITION)\<lparr>isDecomposing := True\<rparr>"
  let ?eng1 = "pushHistory (HumanMessage ''decompose'') (demoEngine DECOMPOSITION)"
  have svc: "llm ?eng = demoService" "llm ?eng1 = demoService"
    by (simp_all add: demoEngine_def WorkflowEngine_new_def)
  have step: "currentStep (demoEngine DECOMPOSITION) = DECOMPOSITION"
    and idle: "\<not> isDecomposing (demoEngine DECOMPOSITION)"
    by (simp_all add: demoEngine_def WorkflowEngine_new_def)
  have stored: "files demoWorld ''tasks.json'' = Some demoTasksJson"
    by (simp add: demoWorld_def emptyWorld_def)
  have k: "0 < length (findTasksToDecompose [] demoRoot [])"
    by (simp add: demo_find)
  have before: "decomposeLoop (demoEnv emptyArrayBackend) ?eng 0
                   (take 0 (findTasksToDecompose [] demoRoot [])) (demoRoot, 0, [], demoWorld)
                 = (demoRoot, 0, [], demoWorld)"
    by simp
  have task: "node_at demoRoot (findTasksToDecompose [] demoRoot [] ! 0) = Some demoTask"
    unfolding demo_find by (simp add: demoRoot_def)
  have call: "decomposeTask (demoEnv emptyArrayBackend) ?eng demoTask (title demoRoot)
                (if 0 < (0::nat) then sleep 1500 demoWorld else demoWorld)
              = (Inr [], demoWorld\<lparr>calls := 1, clock := 400\<rparr>)"
    using demo_decomposeTask_empty [OF svc(1), of demoTask "title demoRoot" demoWorld]
    by (simp add: demoWorld_def emptyWorld_def)
  from run_drops_empty_answer [OF stored demoTasksJson_nonempty demo_parse_root k before task call]
  obtain persisted where el: "eligible demoTask" and
    "files (snd (snd (runDecomposition (demoEnv emptyArrayBackend) (demoEngine DECOMPOSITION)
                            demoWorld))) ''tasks.json''
       = Some (JSON_stringify (demoEnv emptyArrayBackend) persisted)"
    "node_at persisted (findTasksToDecompose [] demoRoot [] ! 0) = Some demoTask"
    by blast
  then have persisted: "\<exists>persisted.
         files (snd (snd (runDecomposition (demoEnv emptyArrayBackend) (demoEngine DECOMPOSITION)
                            demoWorld))) ''tasks.json''
           = Some (JSON_stringify (demoEnv emptyArrayBackend) persisted)
         \<and> node_at persisted [0] = Some demoTask"
    unfolding demo_find by auto
  have task0: "node_at demoRoot [0] = Some demoTask"
    using task unfolding demo_find by simp
  have call0: "decomposeTask (demoEnv emptyArrayBackend) ?eng demoTask (title demoRoot) demoWorld
              = (Inr [], demoWorld\<lparr>calls := 1, clock := 400\<rparr>)"
    using call by simp
  have "dispatch (demoEnv emptyArrayBackend) ?eng1 demoWorld
      = runDecomposition (demoEnv emptyArrayBackend) ?eng1 demoWorld"
    using step idle handleDecompositionStep_confirmed [OF demo_confirms,
        of "demoEnv emptyArrayBackend" "demoEngine DECOMPOSITION" demoWorld]
    by (simp add: dispatch_def)
  from processMessage_dispatch [OF this [unfolded demo_run_empty [OF svc(2)]]]
  have pm: "processMessage (demoEnv emptyArrayBackend) ''decompose'' (demoEngine DECOMPOSITION) demoWorld
       = (Inr (decompositionReply [] 0),
          pushHistory (AIMessage (decompositionReply [] 0))
            ((pushHistory (HumanMessage ''decompose'') (demoEngine DECOMPOSITION))
               \<lparr>isDecomposing := False, currentStep := ANALYSIS\<rparr>),
          demoWorld\<lparr>calls := 1, clock := 400,
                     backups := [(''tasks.json'', demoTasksJson)],
                     files := [''tasks.json'' \<mapsto> demoStringify demoRoot]\<rparr>)"
    by simp
  show ?thesis
    using stored demo_parse_root [of emptyArrayBackend] demo_find task0 call0 el persisted pm
    by blast
qed

end
